theory Spec2Isabelle
  imports Complex_Main "HOL-Library.Sublist"
begin

section \<open>Values of a numeric column\<close>

text \<open>
  A cell of a numeric pandas column is a float64: the missing value NaN, one of the two
  infinities, or a finite number, taken here as the real number it denotes.  The columns the
  detector reads are numeric; columns of strings are not modelled.
\<close>

datatype fval = NaN | NegInf | Fin real | PosInf

text \<open>
  The comparisons \<open>>\<close>, \<open>>=\<close> and \<open><=\<close> of float64: a comparison with a NaN operand is
  false, the infinities lie below and above every finite value.
\<close>

fun fgt :: "fval \<Rightarrow> fval \<Rightarrow> bool" where
  "fgt NaN _ = False"
| "fgt _ NaN = False"
| "fgt (Fin a) (Fin b) = (a > b)"
| "fgt PosInf PosInf = False"
| "fgt PosInf _ = True"
| "fgt _ PosInf = False"
| "fgt NegInf _ = False"
| "fgt _ NegInf = True"

fun fge :: "fval \<Rightarrow> fval \<Rightarrow> bool" where
  "fge NaN _ = False"
| "fge _ NaN = False"
| "fge (Fin a) (Fin b) = (a \<ge> b)"
| "fge PosInf _ = True"
| "fge _ PosInf = False"
| "fge _ NegInf = True"
| "fge NegInf _ = False"

fun fle :: "fval \<Rightarrow> fval \<Rightarrow> bool" where
  "fle NaN _ = False"
| "fle _ NaN = False"
| "fle (Fin a) (Fin b) = (a \<le> b)"
| "fle _ PosInf = True"
| "fle PosInf _ = False"
| "fle NegInf _ = True"
| "fle _ NegInf = False"

type_synonym series = "fval list"

text \<open>
  The arithmetic the script takes from pandas and from float64 is a parameter of the model:
  \<open>Series.mean()\<close>, \<open>Series.std()\<close>, and the float \<open>+\<close> and \<open>*\<close>.  The script's own
  steps are modelled for every such arithmetic, hence for float64 with its rounding too.
\<close>

record arith =
  s_mean :: "series \<Rightarrow> fval"
  s_std :: "series \<Rightarrow> fval"
  f_add :: "fval \<Rightarrow> fval \<Rightarrow> fval"
  f_mul :: "fval \<Rightarrow> fval \<Rightarrow> fval"

text \<open>The values of a series that are not NaN.\<close>

fun notna :: "series \<Rightarrow> series" where
  "notna [] = []"
| "notna (NaN # s) = notna s"
| "notna (x # s) = x # notna s"


section \<open>Errors, files and the trace of a run\<close>

text \<open>
  How a run ends early: \<open>sys.exit(1)\<close>, and the exceptions no handler of the script
  catches: KeyError of \<open>df[c]\<close>, OverflowError of the rolling window, and whatever
  \<open>read_csv\<close> raises apart from the UnicodeDecodeError of the first attempt.
\<close>

datatype error = SysExit nat | KeyError "string option" | OverflowError | ReadError

definition ebind :: "'e + 'a \<Rightarrow> ('a \<Rightarrow> 'e + 'b) \<Rightarrow> 'e + 'b" where
  "ebind m f = (case m of Inl e \<Rightarrow> Inl e | Inr x \<Rightarrow> f x)"

text \<open>
  A DataFrame as \<open>read_csv\<close> returns it: its columns in the order of the header, each a name
  with its series of values.  All series of a frame have the same length.
\<close>

type_synonym dataframe = "(string \<times> series) list"

definition columns :: "dataframe \<Rightarrow> string list" where
  "columns df = map fst df"

definition len :: "dataframe \<Rightarrow> nat" where
  "len df = (case df of [] \<Rightarrow> 0 | (c, s) # _ \<Rightarrow> length s)"

definition wf_df :: "dataframe \<Rightarrow> bool" where
  "wf_df df = list_all (\<lambda>(c, s). length s = len df) df"

text \<open>\<open>df[c]\<close>: the series of the column named \<open>c\<close>, KeyError when there is none.\<close>

fun getcol :: "dataframe \<Rightarrow> string option \<Rightarrow> error + series" where
  "getcol df None = Inl (KeyError None)"
| "getcol df (Some c) = (case map_of df c of None \<Rightarrow> Inl (KeyError (Some c)) | Some s \<Rightarrow> Inr s)"

text \<open>
  What \<open>read_csv\<close> does with a file under one encoding: it returns a table, raises
  UnicodeDecodeError, or raises something else (an empty file, a directory, a malformed
  line).  A file is what it gives under each of the two encodings the reader tries; the file
  system maps a path to its file, None when the path does not exist.
\<close>

datatype read_result = Table dataframe | UnicodeDecodeError | OtherError

datatype csv_file = CsvFile (as_utf8: read_result) (as_latin1: read_result)

datatype encoding = UTF8 | Latin1

text \<open>The stages of the detection, lines 77-101.\<close>

datatype stage = ThrPfd | ThrPower | BandMask | InstantMask | Hysteresis

text \<open>
  The trace of a run: the file accesses and the stages of the computation, in the order in
  which the script executes them.
\<close>

datatype event = PathExists string | ReadCsv string encoding | Ran stage

text \<open>
  Lines 46-54 of script2.py:
  \<^verbatim>\<open>
  def leer_csv(path):
      path = Path(path)
      if not path.exists():
          print(f"ERROR: Archivo inexistente: {path}")
          sys.exit(1)
      try:
          return pd.read_csv(path)
      except UnicodeDecodeError:
          return pd.read_csv(path, encoding="latin1")
  \<close>
\<close>

definition leer_csv ::
  "(string \<rightharpoonup> csv_file) \<Rightarrow> string \<Rightarrow> event list \<Rightarrow> (error + dataframe) \<times> event list" where
  "leer_csv fs path tr =
     (case fs path of
        None \<Rightarrow> (Inl (SysExit 1), tr @ [PathExists path])
      | Some f \<Rightarrow>
          (case as_utf8 f of
             Table df \<Rightarrow> (Inr df, tr @ [PathExists path, ReadCsv path UTF8])
           | OtherError \<Rightarrow> (Inl ReadError, tr @ [PathExists path, ReadCsv path UTF8])
           | UnicodeDecodeError \<Rightarrow>
               (case as_latin1 f of
                  Table df \<Rightarrow>
                    (Inr df, tr @ [PathExists path, ReadCsv path UTF8, ReadCsv path Latin1])
                | _ \<Rightarrow>
                    (Inl ReadError,
                     tr @ [PathExists path, ReadCsv path UTF8, ReadCsv path Latin1]))))"

section \<open>Column resolver\<close>

text \<open>
  \<open>str.lower()\<close> on strings of ASCII characters: the upper case letters A-Z are mapped to
  a-z.  Characters are bytes here, and the case mapping of characters beyond ASCII is not
  modelled.  The three keywords of the script are ASCII, and a match with them consists of
  ASCII characters of the column name.
\<close>

definition lower_char :: "char \<Rightarrow> char" where
  "lower_char c =
     (let n = (of_char c :: nat) in if 65 \<le> n \<and> n \<le> 90 then char_of (n + 32) else c)"

definition lower :: "string \<Rightarrow> string" where
  "lower s = map lower_char s"

text \<open>Python's \<open>k in s\<close> on strings: \<open>k\<close> occurs in \<open>s\<close> as a contiguous substring.\<close>

fun str_in :: "string \<Rightarrow> string \<Rightarrow> bool" where
  "str_in k [] = (k = [])"
| "str_in k (c # cs) = (prefix k (c # cs) \<or> str_in k cs)"

text \<open>
  Lines 56-60 of script2.py, on the list \<open>df.columns\<close>:
  \<^verbatim>\<open>
  def buscar_col(df, key):
      for c in df.columns:
          if key.lower() in c.lower():
              return c
      return None
  \<close>
\<close>

fun buscar_col :: "string list \<Rightarrow> string \<Rightarrow> string option" where
  "buscar_col [] key = None"
| "buscar_col (c # cs) key =
     (if str_in (lower key) (lower c) then Some c else buscar_col cs key)"

text \<open>
  The matching condition in the words of the specification.  Two characters are the same
  letter when they are equal or one is an upper case letter A-Z and the other the lower case
  letter 32 code points above it; two strings are equal up to case when they are so
  position by position; a name contains the keyword as a case-insensitive substring when
  some contiguous part of the name equals the keyword up to case.
\<close>

definition same_letter :: "char \<Rightarrow> char \<Rightarrow> bool" where
  "same_letter a b =
     (a = b
      \<or> (65 \<le> (of_char a :: nat) \<and> (of_char a :: nat) \<le> 90
           \<and> (of_char b :: nat) = of_char a + 32)
      \<or> (65 \<le> (of_char b :: nat) \<and> (of_char b :: nat) \<le> 90
           \<and> (of_char a :: nat) = of_char b + 32))"

definition equal_up_to_case :: "string \<Rightarrow> string \<Rightarrow> bool" where
  "equal_up_to_case xs ys = list_all2 same_letter xs ys"

definition matches :: "string \<Rightarrow> string \<Rightarrow> bool" where
  "matches key c = (\<exists>ps w ss. c = ps @ w @ ss \<and> equal_up_to_case key w)"

text \<open>Truth value of a resolver result in a condition: None and the empty string are false.\<close>

fun truthy :: "string option \<Rightarrow> bool" where
  "truthy None = False"
| "truthy (Some s) = (s \<noteq> [])"

section \<open>Hysteresis\<close>

text \<open>\<open>Series.any()\<close> on a boolean series.\<close>

definition series_any :: "bool list \<Rightarrow> bool" where
  "series_any bs = list_ex (\<lambda>b. b) bs"

text \<open>\<open>astype(int)\<close> on a boolean: True is 1, False is 0.\<close>

definition astype_int :: "bool \<Rightarrow> int" where
  "astype_int b = (if b then 1 else 0)"

text \<open>
  \<open>Series.rolling(w, min_periods=w).sum()\<close>: the entry at position \<open>i\<close> is NaN while fewer
  than \<open>w\<close> samples exist (\<open>i + 1 < w\<close>), and afterwards the sum of the \<open>w\<close> samples ending
  at \<open>i\<close>.  The sum of zeros and ones is exact in float64.
\<close>

definition rolling_sum :: "nat \<Rightarrow> int list \<Rightarrow> fval list" where
  "rolling_sum w xs =
     map (\<lambda>i. if i + 1 < w then NaN
              else Fin (of_int (sum_list (take w (drop (i + 1 - w) xs)))))
         [0..<length xs]"

text \<open>
  Lines 96-101 of script2.py:
  \<^verbatim>\<open>
  if args.n_consec > 1:
      hits = pd.Series(instant_mask.astype(int)).rolling(args.n_consec,
                 min_periods=args.n_consec).sum() >= args.n_consec
      dron_detectado = hits.any()
  else:
      dron_detectado = instant_mask.any()
  \<close>
  \<open>n_consec\<close> is a Python integer without bound.  Over a series without rows pandas
  computes no window and returns the empty series; otherwise it passes the window size to
  its int64 window routines, and a size of \<open>2^63\<close> or more raises OverflowError.
\<close>

definition dron_detectado :: "int \<Rightarrow> bool list \<Rightarrow> error + bool" where
  "dron_detectado n_consec instant_mask =
     (if n_consec > 1 then
        (if instant_mask \<noteq> [] \<and> n_consec \<ge> 2 ^ 63 then Inl OverflowError
         else
           (let hits = map (\<lambda>s. fge s (Fin (of_int n_consec)))
                           (rolling_sum (nat n_consec) (map astype_int instant_mask))
            in Inr (series_any hits)))
      else Inr (series_any instant_mask))"

text \<open>The mask has a run of \<open>k\<close> consecutive true values starting at some position.\<close>

definition has_run :: "nat \<Rightarrow> bool list \<Rightarrow> bool" where
  "has_run k m = (\<exists>i. i + k \<le> length m \<and> (\<forall>j<k. m ! (i + j)))"

section \<open>The detector\<close>

text \<open>The command line arguments, with the types argparse gives them.\<close>

record args =
  baseline :: string
  datafile :: string
  ksigma :: fval
  freq_min :: "fval option"
  freq_max :: "fval option"
  n_consec :: int
  stats :: bool

text \<open>The \<open>&\<close> of two boolean series over the same rows.\<close>

definition series_and :: "bool list \<Rightarrow> bool list \<Rightarrow> bool list" where
  "series_and xs ys = map2 (\<and>) xs ys"

text \<open>
  Lines 77-78:
  \<^verbatim>\<open>
  mu_pfd,  sigma_pfd  = df_base[pfd_base].mean(), df_base[pfd_base].std()
  thr_pfd = mu_pfd + args.ksigma * sigma_pfd
  \<close>
\<close>

definition thr_pfd :: "arith \<Rightarrow> args \<Rightarrow> dataframe \<Rightarrow> string option \<Rightarrow> error + fval" where
  "thr_pfd ar a df_base pfd_base =
     ebind (getcol df_base pfd_base) (\<lambda>s.
       (let mu_pfd = s_mean ar s; sigma_pfd = s_std ar s
        in Inr (f_add ar mu_pfd (f_mul ar (ksigma a) sigma_pfd))))"

text \<open>
  Lines 80-83:
  \<^verbatim>\<open>
  thr_power = None
  if pow_base and pow_data:
      mu_pow, sigma_pow = df_base[pow_base].mean(), df_base[pow_base].std()
      thr_power = mu_pow + args.ksigma * sigma_pow
  \<close>
\<close>

definition thr_power ::
  "arith \<Rightarrow> args \<Rightarrow> dataframe \<Rightarrow> string option \<Rightarrow> string option \<Rightarrow> error + fval option" where
  "thr_power ar a df_base pow_base pow_data =
     (if truthy pow_base \<and> truthy pow_data then
        ebind (getcol df_base pow_base) (\<lambda>s.
          (let mu_pow = s_mean ar s; sigma_pow = s_std ar s
           in Inr (Some (f_add ar mu_pow (f_mul ar (ksigma a) sigma_pow)))))
      else Inr None)"

text \<open>
  Lines 86-88:
  \<^verbatim>\<open>
  band_mask = np.ones(len(df_data), dtype=bool)
  if freq_data and args.freq_min is not None and args.freq_max is not None:
      band_mask = (df_data[freq_data] >= args.freq_min) & (df_data[freq_data] <= args.freq_max)
  \<close>
\<close>

definition band_mask :: "args \<Rightarrow> dataframe \<Rightarrow> string option \<Rightarrow> error + bool list" where
  "band_mask a df_data freq_data =
     (case (truthy freq_data, freq_min a, freq_max a) of
        (True, Some lo, Some hi) \<Rightarrow>
          ebind (getcol df_data freq_data) (\<lambda>f.
            Inr (series_and (map (\<lambda>x. fge x lo) f) (map (\<lambda>x. fle x hi) f)))
      | _ \<Rightarrow> Inr (replicate (len df_data) True))"

text \<open>
  Lines 91-93:
  \<^verbatim>\<open>
  instant_mask = (df_data[pfd_data] > thr_pfd) & band_mask
  if thr_power is not None:
      instant_mask &= df_data[pow_data] > thr_power
  \<close>
\<close>

definition instant_mask ::
  "dataframe \<Rightarrow> string option \<Rightarrow> string option \<Rightarrow> fval \<Rightarrow> fval option \<Rightarrow> bool list
     \<Rightarrow> error + bool list" where
  "instant_mask df_data pfd_data pow_data tp tw bm =
     ebind (getcol df_data pfd_data) (\<lambda>pfd.
       (let m = series_and (map (\<lambda>x. fgt x tp) pfd) bm
        in case tw of
             None \<Rightarrow> Inr m
           | Some t \<Rightarrow>
               ebind (getcol df_data pow_data) (\<lambda>pw.
                 Inr (series_and m (map (\<lambda>x. fgt x t) pw)))))"

text \<open>What a run that reaches the verdict has computed.\<close>

record outcome =
  out_thr_pfd :: fval
  out_thr_power :: "fval option"
  out_band_mask :: "bool list"
  out_instant_mask :: "bool list"
  out_dron_detectado :: bool

text \<open>
  A stage of the run: the stage is recorded in the trace when it executes; when it raises,
  the run ends there, otherwise it goes on with the stage's result.
\<close>

definition run_stage ::
  "stage \<Rightarrow> error + 'a \<Rightarrow> ('a \<Rightarrow> event list \<Rightarrow> (error + 'b) \<times> event list) \<Rightarrow> event list
     \<Rightarrow> (error + 'b) \<times> event list" where
  "run_stage st m f tr =
     (case m of Inl e \<Rightarrow> (Inl e, tr @ [Ran st]) | Inr x \<Rightarrow> f x (tr @ [Ran st]))"

text \<open>
  Lines 66-101 of the script, on the two tables read: the columns are resolved, a missing
  Power Flux Density column ends the run with \<open>sys.exit(1)\<close>, then the thresholds, the band
  mask, the instantaneous mask and the verdict are computed in this order.
\<close>

definition detectar ::
  "arith \<Rightarrow> args \<Rightarrow> dataframe \<Rightarrow> dataframe \<Rightarrow> event list \<Rightarrow> (error + outcome) \<times> event list" where
  "detectar ar a df_base df_data tr =
     (let pfd_base = buscar_col (columns df_base) ''Power Flux Density'';
          pfd_data = buscar_col (columns df_data) ''Power Flux Density'';
          pow_base = buscar_col (columns df_base) ''Total Spectrum Power'';
          pow_data = buscar_col (columns df_data) ''Total Spectrum Power'';
          freq_data = buscar_col (columns df_data) ''Frequency''
      in if \<not> truthy pfd_base \<or> \<not> truthy pfd_data then (Inl (SysExit 1), tr)
         else
           run_stage ThrPfd (thr_pfd ar a df_base pfd_base) (\<lambda>tp.
           run_stage ThrPower (thr_power ar a df_base pow_base pow_data) (\<lambda>tw.
           run_stage BandMask (band_mask a df_data freq_data) (\<lambda>bm.
           run_stage InstantMask (instant_mask df_data pfd_data pow_data tp tw bm) (\<lambda>im.
           run_stage Hysteresis (dron_detectado (n_consec a) im) (\<lambda>v tr'.
             (Inr \<lparr>out_thr_pfd = tp, out_thr_power = tw, out_band_mask = bm,
                   out_instant_mask = im, out_dron_detectado = v\<rparr>, tr')))))) tr)"

text \<open>
  The whole script: lines 63-64 read the baseline, then the data file; a missing file or a
  read error ends the run there.
\<close>

definition main ::
  "arith \<Rightarrow> (string \<rightharpoonup> csv_file) \<Rightarrow> args \<Rightarrow> (error + outcome) \<times> event list" where
  "main ar fs a =
     (case leer_csv fs (baseline a) [] of
        (Inl e, tr) \<Rightarrow> (Inl e, tr)
      | (Inr df_base, tr) \<Rightarrow>
          (case leer_csv fs (datafile a) tr of
             (Inl e, tr') \<Rightarrow> (Inl e, tr')
           | (Inr df_data, tr') \<Rightarrow> detectar ar a df_base df_data tr'))"

section \<open>An exact arithmetic and example inputs\<close>

text \<open>
  The arithmetic of the examples: float64 without rounding.  Sums and products are exact on
  finite values and follow IEEE 754 on NaN and the infinities; mean and standard deviation
  leave out NaN as pandas does, the standard deviation with the count less one as divisor.
  The values of the examples are small integers and every intermediate result is
  representable, so float64 computes the same.
\<close>

fun ideal_add :: "fval \<Rightarrow> fval \<Rightarrow> fval" where
  "ideal_add (Fin a) (Fin b) = Fin (a + b)"
| "ideal_add NaN _ = NaN"
| "ideal_add _ NaN = NaN"
| "ideal_add PosInf NegInf = NaN"
| "ideal_add NegInf PosInf = NaN"
| "ideal_add PosInf _ = PosInf"
| "ideal_add _ PosInf = PosInf"
| "ideal_add NegInf _ = NegInf"
| "ideal_add _ NegInf = NegInf"

definition inf_times :: "bool \<Rightarrow> real \<Rightarrow> fval" where
  "inf_times positive b =
     (if b = 0 then NaN else if (0 < b) = positive then PosInf else NegInf)"

fun ideal_mul :: "fval \<Rightarrow> fval \<Rightarrow> fval" where
  "ideal_mul (Fin a) (Fin b) = Fin (a * b)"
| "ideal_mul NaN _ = NaN"
| "ideal_mul _ NaN = NaN"
| "ideal_mul PosInf PosInf = PosInf"
| "ideal_mul PosInf NegInf = NegInf"
| "ideal_mul NegInf PosInf = NegInf"
| "ideal_mul NegInf NegInf = PosInf"
| "ideal_mul PosInf (Fin b) = inf_times True b"
| "ideal_mul NegInf (Fin b) = inf_times False b"
| "ideal_mul (Fin a) PosInf = inf_times True a"
| "ideal_mul (Fin a) NegInf = inf_times False a"

fun fin_vals :: "series \<Rightarrow> real list" where
  "fin_vals [] = []"
| "fin_vals (Fin x # s) = x # fin_vals s"
| "fin_vals (_ # s) = fin_vals s"

definition ideal_mean :: "series \<Rightarrow> fval" where
  "ideal_mean s =
     (let v = notna s
      in if v = [] then NaN
         else if PosInf \<in> set v \<and> NegInf \<in> set v then NaN
         else if PosInf \<in> set v then PosInf
         else if NegInf \<in> set v then NegInf
         else Fin (sum_list (fin_vals v) / real (length v)))"

definition ideal_std :: "series \<Rightarrow> fval" where
  "ideal_std s =
     (let v = notna s
      in if length v \<le> 1 then NaN
         else if PosInf \<in> set v \<or> NegInf \<in> set v then NaN
         else (let r = fin_vals v;
                   avg = sum_list r / real (length r);
                   sqr = sum_list (map (\<lambda>x. (avg - x)\<^sup>2) r)
               in Fin (sqrt (sqr / real (length r - 1)))))"

definition ideal_arith :: arith where
  "ideal_arith = \<lparr>s_mean = ideal_mean, s_std = ideal_std, f_add = ideal_add, f_mul = ideal_mul\<rparr>"

text \<open>
  A baseline whose two measurement columns have mean 10 and sample standard deviation 2, and
  a data table of six rows with a frequency column.
\<close>

definition ex_base :: dataframe where
  "ex_base = [(''Time'', [Fin 0, Fin 1, Fin 2]),
              (''Power Flux Density'', [Fin 8, Fin 10, Fin 12]),
              (''Total Spectrum Power'', [Fin 8, Fin 10, Fin 12])]"

definition ex_data :: dataframe where
  "ex_data = [(''Frequency'', [Fin 2410, Fin 2410, Fin 2500, Fin 2410, Fin 2410, Fin 2410]),
              (''Power Flux Density'', [Fin 20, Fin 20, Fin 20, Fin 20, Fin 16, NaN]),
              (''Total Spectrum Power'', [Fin 20, Fin 16, Fin 20, Fin 20, Fin 20, Fin 20])]"

text \<open>A data table of two rows with the Power Flux Density column only.\<close>

definition ex_short :: dataframe where
  "ex_short = [(''Power Flux Density'', [Fin 20, Fin 20])]"

text \<open>A baseline with a single row.\<close>

definition ex_single :: dataframe where
  "ex_single = [(''Power Flux Density'', [Fin 10])]"

text \<open>A table without a Power Flux Density column.\<close>

definition ex_nopfd :: dataframe where
  "ex_nopfd = [(''Time'', [Fin 0, Fin 1]), (''Frequency'', [Fin 2410, Fin 2410])]"

text \<open>
  A file system with three files; \<open>data.csv\<close> does not decode as UTF-8 and holds a table
  without a Power Flux Density column.
\<close>

definition ex_fs :: "string \<rightharpoonup> csv_file" where
  "ex_fs = [''baseline.csv'' \<mapsto> CsvFile (Table ex_base) (Table ex_base),
            ''data.csv'' \<mapsto> CsvFile UnicodeDecodeError (Table ex_nopfd),
            ''short.csv'' \<mapsto> CsvFile (Table ex_short) (Table ex_short)]"

definition ex_args :: args where
  "ex_args = \<lparr>baseline = ''baseline.csv'', datafile = ''data.csv'', ksigma = Fin 3,
              freq_min = None, freq_max = None, n_consec = 1, stats = False\<rparr>"

section \<open>Properties of the hysteresis\<close>

lemma astype_int_simps: "astype_int True = 1" "astype_int False = 0"
  by (simp_all add: astype_int_def)

lemma sum_astype_le: "sum_list (map astype_int bs) \<le> int (length bs)"
proof (induction bs)
  case Nil
  then show ?case by simp
next
  case (Cons b bs)
  then show ?case by (cases b) (simp_all add: astype_int_simps)
qed

lemma sum_astype_full:
  "(int (length bs) \<le> sum_list (map astype_int bs)) = (\<forall>b\<in>set bs. b)"
proof (induction bs)
  case Nil
  then show ?case by simp
next
  case (Cons b bs)
  have le: "sum_list (map astype_int bs) \<le> int (length bs)" by (rule sum_astype_le)
  show ?case
  proof (cases b)
    case True
    then show ?thesis using Cons.IH by (simp add: astype_int_simps)
  next
    case False
    then show ?thesis using le by (simp add: astype_int_simps)
  qed
qed

lemma sum_astype_eq:
  "(sum_list (map astype_int bs) = int (length bs)) = (\<forall>b\<in>set bs. b)"
proof -
  have "(sum_list (map astype_int bs) = int (length bs))
        = (int (length bs) \<le> sum_list (map astype_int bs))"
    using sum_astype_le[of bs] by linarith
  then show ?thesis by (simp only: sum_astype_full)
qed

lemma series_any_iff: "series_any bs = (\<exists>i<length bs. bs ! i)"
  unfolding series_any_def list_ex_iff by (metis in_set_conv_nth)

lemma window_all:
  assumes "i + k \<le> length m"
  shows "(\<forall>b\<in>set (take k (drop i m)). b) = (\<forall>j<k. m ! (i + j))"
proof -
  have len: "length (take k (drop i m)) = k" using assms by simp
  have "(\<forall>b\<in>set (take k (drop i m)). b) = (\<forall>j<k. (take k (drop i m)) ! j)"
    using len by (metis in_set_conv_nth)
  also have "\<dots> = (\<forall>j<k. m ! (i + j))" using assms by simp
  finally show ?thesis .
qed

text \<open>The entry of \<open>hits\<close> at row \<open>i\<close>: the window ending at \<open>i\<close> is full and all true.\<close>

lemma hits_nth:
  assumes "i < length m"
  shows "map (\<lambda>s. fge s (Fin (of_int (int w)))) (rolling_sum w (map astype_int m)) ! i
         = (w \<le> i + 1 \<and> (\<forall>j<w. m ! (i + 1 - w + j)))"
proof (cases "i + 1 < w")
  case True
  then show ?thesis using assms by (simp add: rolling_sum_def)
next
  case False
  then have le: "(i + 1 - w) + w \<le> length m" using assms by simp
  have len: "length (take w (drop (i + 1 - w) m)) = w" using le by simp
  have "int w \<le> sum_list (map astype_int (take w (drop (i + 1 - w) m)))
        = (\<forall>b\<in>set (take w (drop (i + 1 - w) m)). b)"
    using sum_astype_full[of "take w (drop (i + 1 - w) m)"] len by simp
  also have "\<dots> = (\<forall>j<w. m ! (i + 1 - w + j))" by (rule window_all[OF le])
  finally have win: "(int w \<le> sum_list (map astype_int (take w (drop (i + 1 - w) m))))
        = (\<forall>j<w. m ! (i + 1 - w + j))" .
  have cmp: "\<And>x. (real w \<le> real_of_int x) = (int w \<le> x)"
    by (metis of_int_le_iff of_int_of_nat_eq)
  have "map (\<lambda>s. fge s (Fin (of_int (int w)))) (rolling_sum w (map astype_int m)) ! i
        = (int w \<le> sum_list (map astype_int (take w (drop (i + 1 - w) m))))"
    using False assms by (simp add: rolling_sum_def take_map drop_map cmp)
  with win False show ?thesis by simp
qed

lemma hits_any_iff_window:
  "series_any (map (\<lambda>s. fge s (Fin (of_int (int w)))) (rolling_sum w (map astype_int m)))
   = (\<exists>i<length m. w \<le> i + 1 \<and> (\<forall>j<w. m ! (i + 1 - w + j)))"
proof -
  let ?h = "map (\<lambda>s. fge s (Fin (of_int (int w)))) (rolling_sum w (map astype_int m))"
  have len: "length ?h = length m" by (simp add: rolling_sum_def)
  have "series_any ?h = (\<exists>i<length m. ?h ! i)" unfolding series_any_iff len ..
  also have "\<dots> = (\<exists>i<length m. w \<le> i + 1 \<and> (\<forall>j<w. m ! (i + 1 - w + j)))"
    using hits_nth[of _ m w] by blast
  finally show ?thesis .
qed

lemma window_iff_run:
  assumes "0 < w"
  shows "(\<exists>i<length m. w \<le> i + 1 \<and> (\<forall>j<w. m ! (i + 1 - w + j))) = has_run w m"
proof
  assume "\<exists>i<length m. w \<le> i + 1 \<and> (\<forall>j<w. m ! (i + 1 - w + j))"
  then obtain i where i: "i < length m" "w \<le> i + 1" "\<forall>j<w. m ! (i + 1 - w + j)" by blast
  then have "(i + 1 - w) + w \<le> length m" by simp
  with i show "has_run w m" unfolding has_run_def by blast
next
  assume "has_run w m"
  then obtain s where s: "s + w \<le> length m" "\<forall>j<w. m ! (s + j)"
    unfolding has_run_def by blast
  let ?i = "s + w - 1"
  have "?i < length m" "w \<le> ?i + 1" "?i + 1 - w = s" using s assms by simp_all
  with s show "\<exists>i<length m. w \<le> i + 1 \<and> (\<forall>j<w. m ! (i + 1 - w + j))" by metis
qed

lemma has_run_one: "has_run (Suc 0) m = series_any m"
  unfolding series_any_iff has_run_def by (auto simp: Suc_le_eq)

lemma dron_detectado_window:
  assumes "1 < n" and "n < 2 ^ 63 \<or> m = []"
  shows "dron_detectado n m
         = Inr (\<exists>i<length m. nat n \<le> i + 1 \<and> (\<forall>j<nat n. m ! (i + 1 - nat n + j)))"
proof -
  from assms(1) have "int (nat n) = n" by simp
  moreover from assms(2) have "\<not> (m \<noteq> [] \<and> 2 ^ 63 \<le> n)" by auto
  ultimately show ?thesis
    using assms(1) hits_any_iff_window[of "nat n" m] by (simp add: dron_detectado_def)
qed

lemma dron_detectado_overflow:
  assumes "2 ^ 63 \<le> n" and "m \<noteq> []"
  shows "dron_detectado n m = Inl OverflowError"
proof -
  have "(1::int) < 2 ^ 63" by simp
  with assms(1) have "1 < n" by linarith
  with assms show ?thesis by (simp add: dron_detectado_def)
qed


lemma dron_detectado_run:
  assumes "1 \<le> n" and "n < 2 ^ 63 \<or> m = []"
  shows "dron_detectado n m = Inr (has_run (nat n) m)"
proof (cases "1 < n")
  case True
  then have "0 < nat n" by simp
  then show ?thesis
    using dron_detectado_window[OF True assms(2)] window_iff_run[of "nat n" m] by simp
next
  case False
  with assms have "n = 1" by simp
  then show ?thesis by (simp add: dron_detectado_def has_run_one)
qed

text \<open>
  C1, as amended.  For every instantaneous mask and every \<open>n_consec\<close> from 1 up to the
  largest window pandas accepts (\<open>n_consec < 2^63\<close>; any \<open>n_consec \<ge> 1\<close> when the mask has no
  rows) the verdict is true exactly when the mask has a run of \<open>n_consec\<close> consecutive true
  values.  For \<open>n_consec \<le> 1\<close> the verdict is the disjunction of the mask; for
  \<open>n_consec > 1\<close> it is true exactly when some row \<open>i\<close> with a full trailing window
  (\<open>n_consec \<le> i + 1\<close>) has a window whose sum is \<open>n_consec\<close>.
\<close>

theorem dron_detectado_iff_run:
  assumes "1 \<le> n" and "n < 2 ^ 63 \<or> m = []"
  shows "dron_detectado n m = Inr (has_run (nat n) m)
       \<and> (n \<le> 1 \<longrightarrow> dron_detectado n m = Inr (\<exists>i<length m. m ! i))
       \<and> (1 < n \<longrightarrow> dron_detectado n m
              = Inr (\<exists>i<length m. nat n \<le> i + 1
                   \<and> sum_list (map astype_int (take (nat n) (drop (i + 1 - nat n) m))) = n))"
proof (intro conjI impI)
  show "dron_detectado n m = Inr (has_run (nat n) m)"
    by (rule dron_detectado_run[OF assms])
next
  assume "n \<le> 1"
  then show "dron_detectado n m = Inr (\<exists>i<length m. m ! i)"
    by (simp add: dron_detectado_def series_any_iff)
next
  assume n: "1 < n"
  have "\<And>i. i < length m \<Longrightarrow> nat n \<le> i + 1 \<Longrightarrow>
          (sum_list (map astype_int (take (nat n) (drop (i + 1 - nat n) m))) = n)
          = (\<forall>j<nat n. m ! (i + 1 - nat n + j))"
  proof -
    fix i assume i: "i < length m" "nat n \<le> i + 1"
    then have le: "(i + 1 - nat n) + nat n \<le> length m" by simp
    then have len: "length (take (nat n) (drop (i + 1 - nat n) m)) = nat n" by simp
    have "int (nat n) = n" using n by simp
    with len have "(sum_list (map astype_int (take (nat n) (drop (i + 1 - nat n) m))) = n)
          = (\<forall>b\<in>set (take (nat n) (drop (i + 1 - nat n) m)). b)"
      using sum_astype_eq[of "take (nat n) (drop (i + 1 - nat n) m)"] by simp
    also have "\<dots> = (\<forall>j<nat n. m ! (i + 1 - nat n + j))" by (rule window_all[OF le])
    finally show "(sum_list (map astype_int (take (nat n) (drop (i + 1 - nat n) m))) = n)
          = (\<forall>j<nat n. m ! (i + 1 - nat n + j))" .
  qed
  then show "dron_detectado n m
              = Inr (\<exists>i<length m. nat n \<le> i + 1
                   \<and> sum_list (map astype_int (take (nat n) (drop (i + 1 - nat n) m))) = n)"
    unfolding dron_detectado_window[OF n assms(2)] by blast
qed

theorem dron_detectado_iff_run_witness:
  "(1::int) \<le> 3 \<and> ((3::int) < 2 ^ 63 \<or> [True, True, False, True, True, True] = [])
   \<and> dron_detectado 3 [True, True, False, True, True, True] = Inr True
   \<and> has_run (nat 3) [True, True, False, True, True, True]
   \<and> dron_detectado 3 [True, True, False, True, True, False] = Inr False
   \<and> \<not> has_run (nat 3) [True, True, False, True, True, False]"
proof -
  have h: "(1::int) \<le> 3" by simp
  have a: "dron_detectado 3 [True, True, False, True, True, True] = Inr True" by code_simp
  have b: "dron_detectado 3 [True, True, False, True, True, False] = Inr False" by code_simp
  have c: "(3::int) < 2 ^ 63 \<or> [True, True, False, True, True, True] = []" by simp
  have d: "(3::int) < 2 ^ 63 \<or> [True, True, False, True, True, False] = []" by simp
  show ?thesis
    using a b c dron_detectado_iff_run[OF h c] dron_detectado_iff_run[OF h d]
    by simp
qed

text \<open>
  C1 as stated, for every \<open>n_consec \<ge> 1\<close>, fails at \<open>n_consec = 2^63\<close> on a mask of two rows:
  line 98 raises OverflowError and the run has no verdict.
\<close>

theorem dron_detectado_overflow_counterexample:
  "dron_detectado 9223372036854775808 [True, True] = Inl OverflowError
   \<and> dron_detectado 9223372036854775808 [True, True]
       \<noteq> Inr (has_run (nat 9223372036854775808) [True, True])"
proof -
  have "dron_detectado 9223372036854775808 [True, True] = Inl OverflowError"
    by (rule dron_detectado_overflow) simp_all
  then show ?thesis by simp
qed

section \<open>Properties of the column resolver\<close>

lemma of_char_lower_char:
  "(of_char (lower_char a) :: nat)
   = (if 65 \<le> (of_char a :: nat) \<and> (of_char a :: nat) \<le> 90 then of_char a + 32
      else of_char a)"
proof (cases "65 \<le> (of_char a :: nat) \<and> (of_char a :: nat) \<le> 90")
  case True
  then have "(of_char a + 32 :: nat) < 256" by simp
  then have "(of_char a + 32 :: nat) mod 256 = of_char a + 32" by simp
  with True show ?thesis by (simp add: lower_char_def Let_def)
next
  case False
  then show ?thesis by (auto simp: lower_char_def Let_def)
qed

lemma lower_char_eq_iff: "(lower_char a = lower_char b) = same_letter a b"
proof -
  define A where "A = (of_char a :: nat)"
  define B where "B = (of_char b :: nat)"
  have "(lower_char a = lower_char b)
        = ((of_char (lower_char a) :: nat) = of_char (lower_char b))"
    by (simp only: of_char_eq_iff)
  also have "\<dots> = ((if 65 \<le> A \<and> A \<le> 90 then A + 32 else A)
                   = (if 65 \<le> B \<and> B \<le> 90 then B + 32 else B))"
    unfolding of_char_lower_char A_def B_def ..
  also have "\<dots> = (A = B \<or> (65 \<le> A \<and> A \<le> 90 \<and> B = A + 32)
                     \<or> (65 \<le> B \<and> B \<le> 90 \<and> A = B + 32))"
    by auto
  also have "\<dots> = same_letter a b"
    unfolding same_letter_def A_def B_def by (simp only: of_char_eq_iff)
  finally show ?thesis .
qed

lemma lower_eq_iff: "(lower xs = lower ys) = equal_up_to_case xs ys"
proof (induction xs arbitrary: ys)
  case Nil
  then show ?case by (simp add: lower_def equal_up_to_case_def)
next
  case (Cons x xs)
  show ?case
  proof (cases ys)
    case Nil
    then show ?thesis by (simp add: lower_def equal_up_to_case_def)
  next
    case (Cons y ys')
    with Cons.IH[of ys'] show ?thesis
      by (simp add: lower_def equal_up_to_case_def lower_char_eq_iff)
  qed
qed

lemma str_in_iff_sublist: "str_in k s = sublist k s"
proof (induction s)
  case Nil
  then show ?case by simp
next
  case (Cons c cs)
  then show ?case by (simp add: sublist_Cons_right)
qed

lemma buscar_col_matches: "str_in (lower key) (lower c) = matches key c"
proof -
  have "sublist (lower key) (lower c) = (\<exists>ps w ss. c = ps @ w @ ss \<and> lower key = lower w)"
  proof
    assume "sublist (lower key) (lower c)"
    then obtain p s where "map lower_char c = p @ (map lower_char key @ s)"
      unfolding sublist_def lower_def by auto
    then have "\<exists>ps r. c = ps @ r \<and> p = map lower_char ps
                 \<and> map lower_char key @ s = map lower_char r"
      by (rule iffD1[OF map_eq_append_conv])
    then obtain ps r where r: "c = ps @ r" "map lower_char r = map lower_char key @ s"
      by auto
    from r(2) have "\<exists>w ss. r = w @ ss \<and> map lower_char key = map lower_char w
                 \<and> s = map lower_char ss"
      by (rule iffD1[OF map_eq_append_conv])
    then obtain w ss where "r = w @ ss" "map lower_char key = map lower_char w" by blast
    with r(1) have "c = ps @ w @ ss \<and> lower key = lower w" by (simp add: lower_def)
    then show "\<exists>ps w ss. c = ps @ w @ ss \<and> lower key = lower w" by blast
  next
    assume "\<exists>ps w ss. c = ps @ w @ ss \<and> lower key = lower w"
    then obtain ps w ss where "c = ps @ w @ ss" "lower key = lower w" by blast
    then have "lower c = lower ps @ lower key @ lower ss" by (simp add: lower_def)
    then show "sublist (lower key) (lower c)" unfolding sublist_def by blast
  qed
  then show ?thesis unfolding str_in_iff_sublist matches_def lower_eq_iff .
qed

lemma buscar_col_None: "(buscar_col cols key = None) = (\<forall>c\<in>set cols. \<not> matches key c)"
  by (induction cols) (simp_all add: buscar_col_matches)

lemma buscar_col_Some:
  "(buscar_col cols key = Some c)
   = (\<exists>i<length cols. cols ! i = c \<and> matches key c \<and> (\<forall>j<i. \<not> matches key (cols ! j)))"
proof (induction cols)
  case Nil
  then show ?case by simp
next
  case (Cons d ds)
  show ?case
  proof (cases "matches key d")
    case True
    have "(d = c) = (\<exists>i<length (d # ds). (d # ds) ! i = c \<and> matches key c
              \<and> (\<forall>j<i. \<not> matches key ((d # ds) ! j)))"
    proof
      assume "d = c"
      with True have "(d # ds) ! 0 = c \<and> matches key c
              \<and> (\<forall>j<0. \<not> matches key ((d # ds) ! j))" by simp
      then show "\<exists>i<length (d # ds). (d # ds) ! i = c \<and> matches key c
              \<and> (\<forall>j<i. \<not> matches key ((d # ds) ! j))" by blast
    next
      assume "\<exists>i<length (d # ds). (d # ds) ! i = c \<and> matches key c
              \<and> (\<forall>j<i. \<not> matches key ((d # ds) ! j))"
      then obtain i where i: "(d # ds) ! i = c" "\<forall>j<i. \<not> matches key ((d # ds) ! j)"
        by blast
      have "i = 0"
      proof (rule ccontr)
        assume "i \<noteq> 0"
        then have "0 < i" by simp
        with i(2) have "\<not> matches key ((d # ds) ! 0)" by blast
        with True show False by simp
      qed
      with i(1) show "d = c" by simp
    qed
    with True show ?thesis by (simp add: buscar_col_matches)
  next
    case False
    have "(\<exists>i<length ds. ds ! i = c \<and> matches key c \<and> (\<forall>j<i. \<not> matches key (ds ! j)))
        = (\<exists>i<length (d # ds). (d # ds) ! i = c \<and> matches key c
              \<and> (\<forall>j<i. \<not> matches key ((d # ds) ! j)))"
    proof
      assume "\<exists>i<length ds. ds ! i = c \<and> matches key c \<and> (\<forall>j<i. \<not> matches key (ds ! j))"
      then obtain i where i: "i < length ds" "ds ! i = c" "matches key c"
        "\<forall>j<i. \<not> matches key (ds ! j)" by blast
      have "\<forall>j<Suc i. \<not> matches key ((d # ds) ! j)"
      proof (intro allI impI)
        fix j assume "j < Suc i"
        then show "\<not> matches key ((d # ds) ! j)" using i(4) False by (cases j) simp_all
      qed
      with i have "Suc i < length (d # ds) \<and> (d # ds) ! Suc i = c \<and> matches key c
              \<and> (\<forall>j<Suc i. \<not> matches key ((d # ds) ! j))" by simp
      then show "\<exists>i<length (d # ds). (d # ds) ! i = c \<and> matches key c
              \<and> (\<forall>j<i. \<not> matches key ((d # ds) ! j))" by blast
    next
      assume "\<exists>i<length (d # ds). (d # ds) ! i = c \<and> matches key c
              \<and> (\<forall>j<i. \<not> matches key ((d # ds) ! j))"
      then obtain i where i: "i < length (d # ds)" "(d # ds) ! i = c" "matches key c"
        "\<forall>j<i. \<not> matches key ((d # ds) ! j)" by blast
      from i(2,3) False have "i \<noteq> 0" by (cases i) auto
      then obtain i' where i': "i = Suc i'" by (cases i) auto
      have "\<forall>j<i'. \<not> matches key (ds ! j)"
      proof (intro allI impI)
        fix j assume "j < i'"
        then have "Suc j < i" using i' by simp
        with i(4) have "\<not> matches key ((d # ds) ! Suc j)" by blast
        then show "\<not> matches key (ds ! j)" by simp
      qed
      with i i' have "i' < length ds \<and> ds ! i' = c \<and> matches key c
          \<and> (\<forall>j<i'. \<not> matches key (ds ! j))" by simp
      then show "\<exists>i<length ds. ds ! i = c \<and> matches key c \<and> (\<forall>j<i. \<not> matches key (ds ! j))"
        by blast
    qed
    with False Cons.IH show ?thesis by (simp add: buscar_col_matches)
  qed
qed

lemma buscar_col_in_columns: "buscar_col cols key = Some c \<Longrightarrow> c \<in> set cols"
  by (induction cols) (auto split: if_splits)

lemma str_in_Nil: "str_in k [] = (k = [])"
  by simp

lemma buscar_col_nonempty:
  assumes "key \<noteq> []"
  shows "buscar_col cols key = Some c \<Longrightarrow> c \<noteq> []"
proof (induction cols)
  case Nil
  then show ?case by simp
next
  case (Cons d ds)
  show ?case
  proof (cases "str_in (lower key) (lower d)")
    case True
    with Cons.prems have cd: "c = d" by simp
    show ?thesis
    proof
      assume "c = []"
      with cd True have "lower key = []" by (simp add: lower_def)
      with assms show False by (simp add: lower_def)
    qed
  next
    case False
    with Cons.prems have "buscar_col ds key = Some c" by simp
    then show ?thesis by (rule Cons.IH)
  qed
qed

lemma truthy_buscar_col:
  assumes "key \<noteq> []"
  shows "truthy (buscar_col cols key) = (buscar_col cols key \<noteq> None)"
proof (cases "buscar_col cols key")
  case None
  then show ?thesis by simp
next
  case (Some c)
  with assms have "c \<noteq> []" by (rule buscar_col_nonempty)
  with Some show ?thesis by simp
qed

text \<open>
  C7.  For every list of column names and every keyword the resolver returns None exactly
  when no column contains the keyword as a case-insensitive substring, and returns a name
  \<open>c\<close> exactly when \<open>c\<close> is the column at the first position, in the order of the table,
  whose name contains the keyword as a case-insensitive substring.  The result is always a
  name or None: several matching columns raise nothing, the first is returned.
\<close>

theorem buscar_col_first_match:
  "(buscar_col cols key = None) = (\<forall>c\<in>set cols. \<not> matches key c)
   \<and> (\<forall>c. (buscar_col cols key = Some c)
          = (\<exists>i<length cols. cols ! i = c \<and> matches key c
               \<and> (\<forall>j<i. \<not> matches key (cols ! j))))"
  using buscar_col_None[of cols key] buscar_col_Some[of cols key] by blast

theorem buscar_col_first_match_witness:
  "buscar_col [''Time'', ''POWER flux DENSITY (a)'', ''Power Flux Density (b)'']
     ''Power Flux Density'' = Some ''POWER flux DENSITY (a)''
   \<and> matches ''Power Flux Density'' ''POWER flux DENSITY (a)''
   \<and> buscar_col [''Time'', ''Frequency''] ''Power Flux Density'' = None
   \<and> \<not> matches ''Power Flux Density'' ''Time''"
proof -
  have a: "buscar_col [''Time'', ''POWER flux DENSITY (a)'', ''Power Flux Density (b)'']
     ''Power Flux Density'' = Some ''POWER flux DENSITY (a)''" by code_simp
  have b: "buscar_col [''Time'', ''Frequency''] ''Power Flux Density'' = None" by code_simp
  from a buscar_col_first_match[of
      "[''Time'', ''POWER flux DENSITY (a)'', ''Power Flux Density (b)'']"
      "''Power Flux Density''"]
  have c: "matches ''Power Flux Density'' ''POWER flux DENSITY (a)''" by blast
  from b buscar_col_first_match[of "[''Time'', ''Frequency'']" "''Power Flux Density''"]
  have d: "\<not> matches ''Power Flux Density'' ''Time''" by simp
  from a b c d show ?thesis by blast
qed

section \<open>Properties of the pipeline\<close>

lemma ebind_simps: "ebind (Inl e) f = Inl e" "ebind (Inr x) f = f x"
  by (simp_all add: ebind_def)

lemma ebind_eq_Inr: "(ebind m f = Inr y) = (\<exists>x. m = Inr x \<and> f x = Inr y)"
  by (cases m) (simp_all add: ebind_def)

lemma run_stage_simps:
  "run_stage st (Inl e) f tr = (Inl e, tr @ [Ran st])"
  "run_stage st (Inr x) f tr = f x (tr @ [Ran st])"
  by (simp_all add: run_stage_def)

lemma fst_run_stage_Inr:
  "(fst (run_stage st m f tr) = Inr y) = (\<exists>x. m = Inr x \<and> fst (f x (tr @ [Ran st])) = Inr y)"
  by (cases m) (simp_all add: run_stage_def)

lemma getcol_Inr: "(getcol df c = Inr s) = (\<exists>n. c = Some n \<and> map_of df n = Some s)"
  by (cases c) (auto split: option.splits)

lemma getcol_length:
  assumes "wf_df df" "getcol df c = Inr s"
  shows "length s = len df"
proof -
  from assms(2) obtain n where "map_of df n = Some s" unfolding getcol_Inr by blast
  then have "(n, s) \<in> set df" by (rule map_of_SomeD)
  with assms(1) show ?thesis unfolding wf_df_def list_all_iff by blast
qed

lemma getcol_buscar_col:
  assumes "buscar_col (columns df) key = Some c"
  shows "\<exists>s. getcol df (Some c) = Inr s"
proof -
  from assms have "c \<in> set (columns df)" by (rule buscar_col_in_columns)
  then have "c \<in> fst ` set df" by (simp add: columns_def)
  then have "map_of df c \<noteq> None" by (simp add: map_of_eq_None_iff)
  then show ?thesis by auto
qed

lemma detectar_Inr:
  assumes "fst (detectar ar a df_base df_data tr) = Inr out"
  shows "truthy (buscar_col (columns df_base) ''Power Flux Density'')
       \<and> truthy (buscar_col (columns df_data) ''Power Flux Density'')
       \<and> thr_pfd ar a df_base (buscar_col (columns df_base) ''Power Flux Density'')
           = Inr (out_thr_pfd out)
       \<and> thr_power ar a df_base (buscar_col (columns df_base) ''Total Spectrum Power'')
             (buscar_col (columns df_data) ''Total Spectrum Power'')
           = Inr (out_thr_power out)
       \<and> band_mask a df_data (buscar_col (columns df_data) ''Frequency'')
           = Inr (out_band_mask out)
       \<and> instant_mask df_data (buscar_col (columns df_data) ''Power Flux Density'')
             (buscar_col (columns df_data) ''Total Spectrum Power'')
             (out_thr_pfd out) (out_thr_power out) (out_band_mask out)
           = Inr (out_instant_mask out)
       \<and> dron_detectado (n_consec a) (out_instant_mask out) = Inr (out_dron_detectado out)"
  using assms
  by (auto simp: detectar_def Let_def fst_run_stage_Inr split: if_splits)

lemma series_and_length: "length (series_and xs ys) = min (length xs) (length ys)"
  by (simp add: series_and_def)

lemma series_and_nth:
  "i < length xs \<Longrightarrow> i < length ys \<Longrightarrow> series_and xs ys ! i = (xs ! i \<and> ys ! i)"
  by (simp add: series_and_def)

lemma band_mask_cases:
  "band_mask a df freq_data
   = (if truthy freq_data \<and> freq_min a \<noteq> None \<and> freq_max a \<noteq> None
      then ebind (getcol df freq_data) (\<lambda>f.
             Inr (series_and (map (\<lambda>x. fge x (the (freq_min a))) f)
                             (map (\<lambda>x. fle x (the (freq_max a))) f)))
      else Inr (replicate (len df) True))"
  by (auto simp: band_mask_def split: option.splits bool.splits)

lemma band_mask_length:
  assumes "wf_df df" "band_mask a df fq = Inr bm"
  shows "length bm = len df"
proof (cases "truthy fq \<and> freq_min a \<noteq> None \<and> freq_max a \<noteq> None")
  case True
  with assms(2) obtain f where f: "getcol df fq = Inr f"
    and bm: "bm = series_and (map (\<lambda>x. fge x (the (freq_min a))) f)
                             (map (\<lambda>x. fle x (the (freq_max a))) f)"
    unfolding band_mask_cases by (auto simp: ebind_eq_Inr)
  from getcol_length[OF assms(1) f] bm show ?thesis by (simp add: series_and_length)
next
  case False
  with assms(2) show ?thesis unfolding band_mask_cases by auto
qed

lemma instant_mask_cases:
  assumes "instant_mask df pd pw tp tw bm = Inr im"
  shows "\<exists>pfd. getcol df pd = Inr pfd
         \<and> (case tw of
               None \<Rightarrow> im = series_and (map (\<lambda>x. fgt x tp) pfd) bm
             | Some t \<Rightarrow> (\<exists>pws. getcol df pw = Inr pws
                   \<and> im = series_and (series_and (map (\<lambda>x. fgt x tp) pfd) bm)
                                     (map (\<lambda>x. fgt x t) pws)))"
proof -
  from assms obtain pfd where pfd: "getcol df pd = Inr pfd"
    unfolding instant_mask_def ebind_eq_Inr by blast
  show ?thesis
  proof (cases tw)
    case None
    with assms pfd have "im = series_and (map (\<lambda>x. fgt x tp) pfd) bm"
      by (simp add: instant_mask_def ebind_simps)
    with pfd None show ?thesis by simp
  next
    case (Some t)
    with assms pfd have "\<exists>pws. getcol df pw = Inr pws
                   \<and> im = series_and (series_and (map (\<lambda>x. fgt x tp) pfd) bm)
                                     (map (\<lambda>x. fgt x t) pws)"
      by (auto simp: instant_mask_def ebind_simps ebind_eq_Inr)
    with pfd Some show ?thesis by simp
  qed
qed

lemma instant_mask_length:
  assumes "wf_df df" "length bm = len df" "instant_mask df pd pw tp tw bm = Inr im"
  shows "length im = len df"
proof -
  from instant_mask_cases[OF assms(3)] obtain pfd where pfd: "getcol df pd = Inr pfd"
    and c: "case tw of
               None \<Rightarrow> im = series_and (map (\<lambda>x. fgt x tp) pfd) bm
             | Some t \<Rightarrow> (\<exists>pws. getcol df pw = Inr pws
                   \<and> im = series_and (series_and (map (\<lambda>x. fgt x tp) pfd) bm)
                                     (map (\<lambda>x. fgt x t) pws))"
    by blast
  have l: "length pfd = len df" by (rule getcol_length[OF assms(1) pfd])
  show ?thesis
  proof (cases tw)
    case None
    with c l assms(2) show ?thesis by (simp add: series_and_length)
  next
    case (Some t)
    with c obtain pws where pws: "getcol df pw = Inr pws"
      and im: "im = series_and (series_and (map (\<lambda>x. fgt x tp) pfd) bm)
                                     (map (\<lambda>x. fgt x t) pws)" by auto
    have "length pws = len df" by (rule getcol_length[OF assms(1) pws])
    with im l assms(2) show ?thesis by (simp add: series_and_length)
  qed
qed

section \<open>The example inputs evaluated\<close>

lemma ex_base_cols:
  "buscar_col (columns ex_base) ''Power Flux Density'' = Some ''Power Flux Density''"
  "buscar_col (columns ex_base) ''Total Spectrum Power'' = Some ''Total Spectrum Power''"
  by code_simp+

lemma ex_data_cols:
  "buscar_col (columns ex_data) ''Power Flux Density'' = Some ''Power Flux Density''"
  "buscar_col (columns ex_data) ''Total Spectrum Power'' = Some ''Total Spectrum Power''"
  "buscar_col (columns ex_data) ''Frequency'' = Some ''Frequency''"
  by code_simp+

lemma ex_short_cols:
  "buscar_col (columns ex_short) ''Power Flux Density'' = Some ''Power Flux Density''"
  "buscar_col (columns ex_short) ''Total Spectrum Power'' = None"
  "buscar_col (columns ex_short) ''Frequency'' = None"
  by code_simp+


lemma ex_nopfd_cols: "buscar_col (columns ex_nopfd) ''Power Flux Density'' = None"
  by code_simp

lemma ex_wf: "wf_df ex_base" "wf_df ex_data" "wf_df ex_short" "wf_df ex_single"
  by (simp_all add: wf_df_def len_def ex_base_def ex_data_def ex_short_def ex_single_def)

lemma ex_len: "len ex_data = 6" "len ex_short = 2"
  by (simp_all add: len_def ex_data_def ex_short_def)

lemma ideal_arith_fields:
  "s_mean ideal_arith = ideal_mean" "s_std ideal_arith = ideal_std"
  "f_add ideal_arith = ideal_add" "f_mul ideal_arith = ideal_mul"
  by (simp_all add: ideal_arith_def)



lemma ex_stats:
  "ideal_mean [Fin 8, Fin 10, Fin 12] = Fin 10"
  "ideal_std [Fin 8, Fin 10, Fin 12] = Fin 2"
  "ideal_mean [Fin 10] = Fin 10"
  "ideal_std [Fin 10] = NaN"
  by (simp_all add: ideal_mean_def ideal_std_def Let_def power2_eq_square)

lemma ex_getcol:
  "getcol ex_base (Some ''Power Flux Density'') = Inr [Fin 8, Fin 10, Fin 12]"
  "getcol ex_base (Some ''Total Spectrum Power'') = Inr [Fin 8, Fin 10, Fin 12]"
  "getcol ex_single (Some ''Power Flux Density'') = Inr [Fin 10]"
  "getcol ex_short (Some ''Power Flux Density'') = Inr [Fin 20, Fin 20]"
  "getcol ex_data (Some ''Frequency'')
     = Inr [Fin 2410, Fin 2410, Fin 2500, Fin 2410, Fin 2410, Fin 2410]"
  "getcol ex_data (Some ''Power Flux Density'')
     = Inr [Fin 20, Fin 20, Fin 20, Fin 20, Fin 16, NaN]"
  "getcol ex_data (Some ''Total Spectrum Power'')
     = Inr [Fin 20, Fin 16, Fin 20, Fin 20, Fin 20, Fin 20]"
  by (simp_all add: ex_base_def ex_single_def ex_short_def ex_data_def)

lemma ex_args_fields:
  "ksigma ex_args = Fin 3" "freq_min ex_args = None" "freq_max ex_args = None"
  "n_consec ex_args = 1" "baseline ex_args = ''baseline.csv''" "datafile ex_args = ''data.csv''"
  by (simp_all add: ex_args_def)

lemma ex_thr_pfd:
  "ksigma a = Fin 3 \<Longrightarrow>
   thr_pfd ideal_arith a ex_base (Some ''Power Flux Density'') = Inr (Fin 16)"
  by (simp add: thr_pfd_def ebind_simps ex_getcol ex_stats ideal_arith_fields del: getcol.simps)


lemma ex_thr_power:
  "ksigma a = Fin 3 \<Longrightarrow>
   thr_power ideal_arith a ex_base (Some ''Total Spectrum Power'')
     (Some ''Total Spectrum Power'') = Inr (Some (Fin 16))"
  "thr_power ideal_arith a ex_base (Some ''Total Spectrum Power'') None = Inr None"
  by (simp_all add: thr_power_def ebind_simps ex_getcol ex_stats ideal_arith_fields
      del: getcol.simps)

lemma ex_band_mask_off:
  "freq_min a = None \<Longrightarrow> band_mask a ex_data (Some ''Frequency'') = Inr (replicate 6 True)"
  "band_mask a ex_short None = Inr [True, True]"
  by (simp_all add: band_mask_cases ex_len numeral_2_eq_2)

lemma ex_band_mask_on:
  "freq_min a = Some (Fin 2400) \<Longrightarrow> freq_max a = Some (Fin (4967 / 2)) \<Longrightarrow>
   band_mask a ex_data (Some ''Frequency'') = Inr [True, True, False, True, True, True]"
  by (simp add: band_mask_cases ebind_simps ex_getcol series_and_def del: getcol.simps)

lemma ex_instant_mask_short:
  "instant_mask ex_short (Some ''Power Flux Density'') None (Fin 16) None [True, True]
   = Inr [True, True]"
  by (simp add: instant_mask_def ebind_simps ex_getcol series_and_def del: getcol.simps)

lemma ex_instant_mask_data:
  "instant_mask ex_data (Some ''Power Flux Density'') (Some ''Total Spectrum Power'')
     (Fin 16) (Some (Fin 16)) [True, True, False, True, True, True]
   = Inr [True, False, False, True, False, False]"
  by (simp add: instant_mask_def ebind_simps ex_getcol series_and_def del: getcol.simps)

lemma ex_detectar_short:
  assumes "ksigma a = Fin 3"
  shows "detectar ideal_arith a ex_base ex_short tr
   = run_stage Hysteresis (dron_detectado (n_consec a) [True, True])
       (\<lambda>v tr'. (Inr \<lparr>out_thr_pfd = Fin 16, out_thr_power = None,
                       out_band_mask = [True, True], out_instant_mask = [True, True],
                       out_dron_detectado = v\<rparr>, tr'))
       (tr @ [Ran ThrPfd, Ran ThrPower, Ran BandMask, Ran InstantMask])"
  by (simp add: detectar_def ex_base_cols ex_short_cols ex_thr_pfd[OF assms] ex_thr_power
      ex_band_mask_off ex_instant_mask_short run_stage_simps)

lemma ex_detectar_data:
  assumes "ksigma a = Fin 3" "freq_min a = Some (Fin 2400)" "freq_max a = Some (Fin (4967 / 2))"
  shows "detectar ideal_arith a ex_base ex_data tr
   = run_stage Hysteresis
       (dron_detectado (n_consec a) [True, False, False, True, False, False])
       (\<lambda>v tr'. (Inr \<lparr>out_thr_pfd = Fin 16, out_thr_power = Some (Fin 16),
                       out_band_mask = [True, True, False, True, True, True],
                       out_instant_mask = [True, False, False, True, False, False],
                       out_dron_detectado = v\<rparr>, tr'))
       (tr @ [Ran ThrPfd, Ran ThrPower, Ran BandMask, Ran InstantMask])"
  by (simp add: detectar_def ex_base_cols ex_data_cols ex_thr_pfd[OF assms(1)]
      ex_thr_power(1)[OF assms(1)] ex_band_mask_on[OF assms(2,3)] ex_instant_mask_data
      run_stage_simps)

section \<open>The stages of a run\<close>

text \<open>
  A run whose tables both resolve the Power Flux Density column executes the two threshold
  stages, the band mask and the instantaneous mask without raising, and then the
  hysteresis.
\<close>

lemma detectar_stages:
  assumes pb: "truthy (buscar_col (columns df_base) ''Power Flux Density'')"
    and pd: "truthy (buscar_col (columns df_data) ''Power Flux Density'')"
  shows "\<exists>tp tw bm im.
       thr_pfd ar a df_base (buscar_col (columns df_base) ''Power Flux Density'') = Inr tp
     \<and> thr_power ar a df_base (buscar_col (columns df_base) ''Total Spectrum Power'')
             (buscar_col (columns df_data) ''Total Spectrum Power'') = Inr tw
     \<and> band_mask a df_data (buscar_col (columns df_data) ''Frequency'') = Inr bm
     \<and> instant_mask df_data (buscar_col (columns df_data) ''Power Flux Density'')
             (buscar_col (columns df_data) ''Total Spectrum Power'') tp tw bm = Inr im
     \<and> detectar ar a df_base df_data tr
         = run_stage Hysteresis (dron_detectado (n_consec a) im)
             (\<lambda>v tr'. (Inr \<lparr>out_thr_pfd = tp, out_thr_power = tw, out_band_mask = bm,
                             out_instant_mask = im, out_dron_detectado = v\<rparr>, tr'))
             (tr @ [Ran ThrPfd, Ran ThrPower, Ran BandMask, Ran InstantMask])"
proof -
  let ?pb = "buscar_col (columns df_base) ''Power Flux Density''"
  let ?pd = "buscar_col (columns df_data) ''Power Flux Density''"
  let ?wb = "buscar_col (columns df_base) ''Total Spectrum Power''"
  let ?wd = "buscar_col (columns df_data) ''Total Spectrum Power''"
  let ?fd = "buscar_col (columns df_data) ''Frequency''"
  have col: "\<And>df key. truthy (buscar_col (columns df) key)
                \<Longrightarrow> \<exists>s. getcol df (buscar_col (columns df) key) = Inr s"
  proof -
    fix df :: dataframe and key
    assume "truthy (buscar_col (columns df) key)"
    then obtain c where c: "buscar_col (columns df) key = Some c"
      by (cases "buscar_col (columns df) key") simp_all
    from getcol_buscar_col[OF c] c
    show "\<exists>s. getcol df (buscar_col (columns df) key) = Inr s" by simp
  qed
  from col[OF pb] obtain sb where sb: "getcol df_base ?pb = Inr sb" by blast
  define tp where "tp = f_add ar (s_mean ar sb) (f_mul ar (ksigma a) (s_std ar sb))"
  have tp: "thr_pfd ar a df_base ?pb = Inr tp"
    by (simp add: thr_pfd_def sb ebind_simps tp_def)
  have "\<exists>tw. thr_power ar a df_base ?wb ?wd = Inr tw \<and> (tw \<noteq> None \<longrightarrow> truthy ?wd)"
  proof (cases "truthy ?wb \<and> truthy ?wd")
    case True
    then obtain s where "getcol df_base ?wb = Inr s" using col by blast
    with True show ?thesis by (simp add: thr_power_def ebind_simps)
  next
    case False
    then show ?thesis by (auto simp: thr_power_def)
  qed
  then obtain tw where tw: "thr_power ar a df_base ?wb ?wd = Inr tw"
    and twd: "tw \<noteq> None \<longrightarrow> truthy ?wd" by blast
  have "\<exists>bm. band_mask a df_data ?fd = Inr bm"
  proof (cases "truthy ?fd \<and> freq_min a \<noteq> None \<and> freq_max a \<noteq> None")
    case True
    then obtain f where "getcol df_data ?fd = Inr f" using col by blast
    with True show ?thesis by (simp add: band_mask_cases ebind_simps)
  next
    case False
    then show ?thesis by (auto simp: band_mask_cases)
  qed
  then obtain bm where bm: "band_mask a df_data ?fd = Inr bm" by blast
  from col[OF pd] obtain sd where sd: "getcol df_data ?pd = Inr sd" by blast
  have "\<exists>im. instant_mask df_data ?pd ?wd tp tw bm = Inr im"
  proof (cases tw)
    case None
    then show ?thesis by (simp add: instant_mask_def sd ebind_simps)
  next
    case (Some t)
    with twd have "truthy ?wd" by simp
    then obtain sw where "getcol df_data ?wd = Inr sw" using col by blast
    with Some show ?thesis by (simp add: instant_mask_def sd ebind_simps)
  qed
  then obtain im where im: "instant_mask df_data ?pd ?wd tp tw bm = Inr im" by blast
  have "detectar ar a df_base df_data tr
         = run_stage Hysteresis (dron_detectado (n_consec a) im)
             (\<lambda>v tr'. (Inr \<lparr>out_thr_pfd = tp, out_thr_power = tw, out_band_mask = bm,
                             out_instant_mask = im, out_dron_detectado = v\<rparr>, tr'))
             (tr @ [Ran ThrPfd, Ran ThrPower, Ran BandMask, Ran InstantMask])"
    using pb pd by (simp add: detectar_def Let_def tp tw bm im run_stage_simps)
  with tp tw bm im show ?thesis by blast
qed

lemma detectar_no_pfd:
  assumes "\<not> truthy (buscar_col (columns df_base) ''Power Flux Density'')
         \<or> \<not> truthy (buscar_col (columns df_data) ''Power Flux Density'')"
  shows "detectar ar a df_base df_data tr = (Inl (SysExit 1), tr)"
  using assms by (auto simp: detectar_def Let_def)

lemma key_nonempty:
  "''Power Flux Density'' \<noteq> []" "''Total Spectrum Power'' \<noteq> []" "''Frequency'' \<noteq> []"
  by simp_all

section \<open>Fewer rows than the required run\<close>




section \<open>Fatal configuration errors\<close>

lemma leer_csv_missing:
  "fs path = None \<Longrightarrow> leer_csv fs path tr = (Inl (SysExit 1), tr @ [PathExists path])"
  by (simp add: leer_csv_def)

lemma leer_csv_fst: "fst (leer_csv fs path tr) = fst (leer_csv fs path tr')"
  by (simp add: leer_csv_def split: option.splits read_result.splits)

lemma leer_csv_no_stage:
  "Ran st \<in> set (snd (leer_csv fs path tr)) \<Longrightarrow> Ran st \<in> set tr"
  by (auto simp: leer_csv_def split: option.splits read_result.splits)

lemma snd_run_stage_last:
  "snd (run_stage st m (\<lambda>v tr'. (g v, tr')) tr) = tr @ [Ran st]"
  by (cases m) (simp_all add: run_stage_def)

text \<open>
  C8.  A missing input file and an unresolvable Power Flux Density column end the run with
  \<open>sys.exit(1)\<close> before any stage of the detection has executed: the trace of the run
  holds no stage, neither a threshold computation nor the masks nor the hysteresis.  When
  the baseline file is missing the trace holds the existence test of the baseline path and
  nothing else, so the data file is never accessed.  A run that exits on none of these
  does execute the threshold stage.
\<close>

theorem fatal_config_error_aborts:
  "(fs (baseline a) = None
      \<longrightarrow> main ar fs a = (Inl (SysExit 1), [PathExists (baseline a)]))
   \<and> (fst (leer_csv fs (baseline a) []) = Inr df_base \<longrightarrow> fs (datafile a) = None
      \<longrightarrow> fst (main ar fs a) = Inl (SysExit 1) \<and> (\<forall>st. Ran st \<notin> set (snd (main ar fs a))))
   \<and> (fst (leer_csv fs (baseline a) []) = Inr df_base
      \<longrightarrow> fst (leer_csv fs (datafile a) tr) = Inr df_data
      \<longrightarrow> (buscar_col (columns df_base) ''Power Flux Density'' = None
           \<or> buscar_col (columns df_data) ''Power Flux Density'' = None)
      \<longrightarrow> fst (main ar fs a) = Inl (SysExit 1) \<and> (\<forall>st. Ran st \<notin> set (snd (main ar fs a))))
   \<and> (fst (leer_csv fs (baseline a) []) = Inr df_base
      \<longrightarrow> fst (leer_csv fs (datafile a) tr) = Inr df_data
      \<longrightarrow> buscar_col (columns df_base) ''Power Flux Density'' \<noteq> None
      \<longrightarrow> buscar_col (columns df_data) ''Power Flux Density'' \<noteq> None
      \<longrightarrow> Ran ThrPfd \<in> set (snd (main ar fs a)))"
proof -
  have c1: "fs (baseline a) = None
      \<longrightarrow> main ar fs a = (Inl (SysExit 1), [PathExists (baseline a)])"
    by (simp add: main_def leer_csv_missing)
  have c2: "fst (leer_csv fs (baseline a) []) = Inr df_base \<longrightarrow> fs (datafile a) = None
      \<longrightarrow> fst (main ar fs a) = Inl (SysExit 1) \<and> (\<forall>st. Ran st \<notin> set (snd (main ar fs a)))"
  proof (intro impI)
    assume b: "fst (leer_csv fs (baseline a) []) = Inr df_base"
      and d: "fs (datafile a) = None"
    from b obtain tr0 where l: "leer_csv fs (baseline a) [] = (Inr df_base, tr0)"
      by (metis prod.collapse)
    from d have m: "leer_csv fs (datafile a) tr0
                    = (Inl (SysExit 1), tr0 @ [PathExists (datafile a)])"
      by (rule leer_csv_missing)
    have r: "main ar fs a = (Inl (SysExit 1), tr0 @ [PathExists (datafile a)])"
      by (simp add: main_def l m)
    have "\<And>st. Ran st \<notin> set tr0"
    proof
      fix st assume "Ran st \<in> set tr0"
      with l have "Ran st \<in> set (snd (leer_csv fs (baseline a) []))" by simp
      then have "Ran st \<in> set []" by (rule leer_csv_no_stage)
      then show False by simp
    qed
    with r show "fst (main ar fs a) = Inl (SysExit 1)
                 \<and> (\<forall>st. Ran st \<notin> set (snd (main ar fs a)))"
      by simp
  qed
  have c3: "fst (leer_csv fs (baseline a) []) = Inr df_base
      \<longrightarrow> fst (leer_csv fs (datafile a) tr) = Inr df_data
      \<longrightarrow> (buscar_col (columns df_base) ''Power Flux Density'' = None
           \<or> buscar_col (columns df_data) ''Power Flux Density'' = None)
      \<longrightarrow> fst (main ar fs a) = Inl (SysExit 1) \<and> (\<forall>st. Ran st \<notin> set (snd (main ar fs a)))"
  proof (intro impI)
    assume b: "fst (leer_csv fs (baseline a) []) = Inr df_base"
      and d: "fst (leer_csv fs (datafile a) tr) = Inr df_data"
      and n: "buscar_col (columns df_base) ''Power Flux Density'' = None
               \<or> buscar_col (columns df_data) ''Power Flux Density'' = None"
    from b obtain tr0 where l: "leer_csv fs (baseline a) [] = (Inr df_base, tr0)"
      by (metis prod.collapse)
    from d leer_csv_fst[of fs "datafile a" tr0 tr] obtain tr1 where
      l': "leer_csv fs (datafile a) tr0 = (Inr df_data, tr1)" by (metis prod.collapse)
    from n have "\<not> truthy (buscar_col (columns df_base) ''Power Flux Density'')
           \<or> \<not> truthy (buscar_col (columns df_data) ''Power Flux Density'')" by auto
    then have "detectar ar a df_base df_data tr1 = (Inl (SysExit 1), tr1)"
      by (rule detectar_no_pfd)
    then have r: "main ar fs a = (Inl (SysExit 1), tr1)" by (simp add: main_def l l')
    have "\<And>st. Ran st \<notin> set tr1"
    proof
      fix st assume "Ran st \<in> set tr1"
      with l' have "Ran st \<in> set (snd (leer_csv fs (datafile a) tr0))" by simp
      then have "Ran st \<in> set tr0" by (rule leer_csv_no_stage)
      with l have "Ran st \<in> set (snd (leer_csv fs (baseline a) []))" by simp
      then have "Ran st \<in> set []" by (rule leer_csv_no_stage)
      then show False by simp
    qed
    with r show "fst (main ar fs a) = Inl (SysExit 1)
                 \<and> (\<forall>st. Ran st \<notin> set (snd (main ar fs a)))"
      by simp
  qed
  have c4: "fst (leer_csv fs (baseline a) []) = Inr df_base
      \<longrightarrow> fst (leer_csv fs (datafile a) tr) = Inr df_data
      \<longrightarrow> buscar_col (columns df_base) ''Power Flux Density'' \<noteq> None
      \<longrightarrow> buscar_col (columns df_data) ''Power Flux Density'' \<noteq> None
      \<longrightarrow> Ran ThrPfd \<in> set (snd (main ar fs a))"
  proof (intro impI)
    assume b: "fst (leer_csv fs (baseline a) []) = Inr df_base"
      and d: "fst (leer_csv fs (datafile a) tr) = Inr df_data"
      and pb: "buscar_col (columns df_base) ''Power Flux Density'' \<noteq> None"
      and pd: "buscar_col (columns df_data) ''Power Flux Density'' \<noteq> None"
    from b obtain tr0 where l: "leer_csv fs (baseline a) [] = (Inr df_base, tr0)"
      by (metis prod.collapse)
    from d leer_csv_fst[of fs "datafile a" tr0 tr] obtain tr1 where
      l': "leer_csv fs (datafile a) tr0 = (Inr df_data, tr1)" by (metis prod.collapse)
    from pb pd have "truthy (buscar_col (columns df_base) ''Power Flux Density'')"
      "truthy (buscar_col (columns df_data) ''Power Flux Density'')"
      by (simp_all add: truthy_buscar_col)
    from detectar_stages[OF this, of ar a tr1] obtain tp tw bm im where
      "detectar ar a df_base df_data tr1
           = run_stage Hysteresis (dron_detectado (n_consec a) im)
               (\<lambda>v tr'. (Inr \<lparr>out_thr_pfd = tp, out_thr_power = tw, out_band_mask = bm,
                               out_instant_mask = im, out_dron_detectado = v\<rparr>, tr'))
               (tr1 @ [Ran ThrPfd, Ran ThrPower, Ran BandMask, Ran InstantMask])"
      by blast
    then have "snd (detectar ar a df_base df_data tr1)
               = (tr1 @ [Ran ThrPfd, Ran ThrPower, Ran BandMask, Ran InstantMask])
                 @ [Ran Hysteresis]"
      by (simp only: snd_run_stage_last)
    then have "Ran ThrPfd \<in> set (snd (detectar ar a df_base df_data tr1))" by simp
    then show "Ran ThrPfd \<in> set (snd (main ar fs a))" by (simp add: main_def l l')
  qed
  from c1 c2 c3 c4 show ?thesis by (intro conjI)
qed

lemma ex_fs_files:
  "ex_fs ''baseline.csv'' = Some (CsvFile (Table ex_base) (Table ex_base))"
  "ex_fs ''data.csv'' = Some (CsvFile UnicodeDecodeError (Table ex_nopfd))"
  "ex_fs ''short.csv'' = Some (CsvFile (Table ex_short) (Table ex_short))"
  "ex_fs ''other.csv'' = None"
  by (simp_all add: ex_fs_def)

lemma ex_leer:
  "leer_csv ex_fs ''baseline.csv'' tr
     = (Inr ex_base, tr @ [PathExists ''baseline.csv'', ReadCsv ''baseline.csv'' UTF8])"
  "leer_csv ex_fs ''data.csv'' tr
     = (Inr ex_nopfd, tr @ [PathExists ''data.csv'', ReadCsv ''data.csv'' UTF8,
                            ReadCsv ''data.csv'' Latin1])"
  "leer_csv ex_fs ''short.csv'' tr
     = (Inr ex_short, tr @ [PathExists ''short.csv'', ReadCsv ''short.csv'' UTF8])"
  "leer_csv ex_fs ''other.csv'' tr = (Inl (SysExit 1), tr @ [PathExists ''other.csv''])"
  by (simp_all add: leer_csv_def ex_fs_files)

theorem fatal_config_error_aborts_witness:
  "Map.empty (baseline ex_args) = None
   \<and> main ideal_arith Map.empty ex_args = (Inl (SysExit 1), [PathExists ''baseline.csv''])
   \<and> fst (leer_csv ex_fs (baseline (ex_args\<lparr>datafile := ''other.csv''\<rparr>)) []) = Inr ex_base
   \<and> ex_fs (datafile (ex_args\<lparr>datafile := ''other.csv''\<rparr>)) = None
   \<and> fst (main ideal_arith ex_fs (ex_args\<lparr>datafile := ''other.csv''\<rparr>)) = Inl (SysExit 1)
   \<and> (\<forall>st. Ran st \<notin> set (snd (main ideal_arith ex_fs (ex_args\<lparr>datafile := ''other.csv''\<rparr>))))
   \<and> fst (leer_csv ex_fs (baseline ex_args) []) = Inr ex_base
   \<and> fst (leer_csv ex_fs (datafile ex_args) []) = Inr ex_nopfd
   \<and> buscar_col (columns ex_nopfd) ''Power Flux Density'' = None
   \<and> fst (main ideal_arith ex_fs ex_args) = Inl (SysExit 1)
   \<and> (\<forall>st. Ran st \<notin> set (snd (main ideal_arith ex_fs ex_args)))
   \<and> fst (leer_csv ex_fs (datafile (ex_args\<lparr>datafile := ''short.csv''\<rparr>)) []) = Inr ex_short
   \<and> buscar_col (columns ex_base) ''Power Flux Density'' \<noteq> None
   \<and> buscar_col (columns ex_short) ''Power Flux Density'' \<noteq> None
   \<and> Ran ThrPfd \<in> set (snd (main ideal_arith ex_fs (ex_args\<lparr>datafile := ''short.csv''\<rparr>)))"
proof -
  have f: "baseline ex_args = ''baseline.csv''" "datafile ex_args = ''data.csv''"
    "baseline (ex_args\<lparr>datafile := ''other.csv''\<rparr>) = ''baseline.csv''"
    "datafile (ex_args\<lparr>datafile := ''other.csv''\<rparr>) = ''other.csv''"
    "baseline (ex_args\<lparr>datafile := ''short.csv''\<rparr>) = ''baseline.csv''"
    "datafile (ex_args\<lparr>datafile := ''short.csv''\<rparr>) = ''short.csv''"
    by (simp_all add: ex_args_def)
  have h: "Map.empty (baseline ex_args) = None"
    "fst (leer_csv ex_fs (baseline (ex_args\<lparr>datafile := ''other.csv''\<rparr>)) []) = Inr ex_base"
    "ex_fs (datafile (ex_args\<lparr>datafile := ''other.csv''\<rparr>)) = None"
    "fst (leer_csv ex_fs (baseline ex_args) []) = Inr ex_base"
    "fst (leer_csv ex_fs (datafile ex_args) []) = Inr ex_nopfd"
    "buscar_col (columns ex_nopfd) ''Power Flux Density'' = None"
    "fst (leer_csv ex_fs (baseline (ex_args\<lparr>datafile := ''short.csv''\<rparr>)) []) = Inr ex_base"
    "fst (leer_csv ex_fs (datafile (ex_args\<lparr>datafile := ''short.csv''\<rparr>)) []) = Inr ex_short"
    "buscar_col (columns ex_base) ''Power Flux Density'' \<noteq> None"
    "buscar_col (columns ex_short) ''Power Flux Density'' \<noteq> None"
    by (simp_all add: f ex_leer ex_fs_files ex_nopfd_cols ex_base_cols ex_short_cols)
  have 1: "main ideal_arith Map.empty ex_args = (Inl (SysExit 1), [PathExists ''baseline.csv''])"
    using fatal_config_error_aborts[where fs = Map.empty and a = ex_args and ar = ideal_arith] h(1) by (simp add: f)
  have 2: "fst (main ideal_arith ex_fs (ex_args\<lparr>datafile := ''other.csv''\<rparr>)) = Inl (SysExit 1)
     \<and> (\<forall>st. Ran st \<notin> set (snd (main ideal_arith ex_fs (ex_args\<lparr>datafile := ''other.csv''\<rparr>))))"
    using fatal_config_error_aborts[where fs = ex_fs
        and a = "ex_args\<lparr>datafile := ''other.csv''\<rparr>" and ar = ideal_arith
        and df_base = ex_base] h(2,3) by blast
  have 3: "fst (main ideal_arith ex_fs ex_args) = Inl (SysExit 1)
     \<and> (\<forall>st. Ran st \<notin> set (snd (main ideal_arith ex_fs ex_args)))"
    using fatal_config_error_aborts[where fs = ex_fs and a = ex_args and ar = ideal_arith
        and df_base = ex_base and tr = "[]" and df_data = ex_nopfd]
      h(4,5,6) by blast
  have 4: "Ran ThrPfd \<in> set (snd (main ideal_arith ex_fs (ex_args\<lparr>datafile := ''short.csv''\<rparr>)))"
    using fatal_config_error_aborts[where fs = ex_fs
        and a = "ex_args\<lparr>datafile := ''short.csv''\<rparr>" and ar = ideal_arith
        and df_base = ex_base and tr = "[]" and df_data = ex_short] h(7,8,9,10) by blast
  from h 1 2 3 4 show ?thesis by blast
qed

section \<open>The band filter and the instantaneous mask\<close>

lemma fge_fle: "fge x lo = fle lo x"
  by (cases x; cases lo) simp_all

lemma fgt_irrefl: "\<not> fgt x x"
  by (cases x) simp_all

lemma fgt_Fin: "fgt (Fin x) (Fin t) = (t < x)"
  by simp

text \<open>
  C5.  The band filter is active exactly when a frequency column was resolved in the data
  table and both \<open>freq_min\<close> and \<open>freq_max\<close> are set.  When active, a row passes exactly
  when \<open>freq_min \<le> frequency \<le> freq_max\<close>, both ends included; when the column is absent
  or either bound is missing, every row passes.
\<close>

theorem band_mask_filter:
  assumes wf: "wf_df df_data"
  shows "(buscar_col (columns df_data) ''Frequency'' = Some c
            \<longrightarrow> freq_min a = Some lo \<longrightarrow> freq_max a = Some hi
            \<longrightarrow> (\<exists>f bm. getcol df_data (Some c) = Inr f
                   \<and> band_mask a df_data (Some c) = Inr bm
                   \<and> length bm = len df_data
                   \<and> (\<forall>i<len df_data. bm ! i = (fle lo (f ! i) \<and> fle (f ! i) hi))))
       \<and> (buscar_col (columns df_data) ''Frequency'' = None
             \<or> freq_min a = None \<or> freq_max a = None
            \<longrightarrow> band_mask a df_data (buscar_col (columns df_data) ''Frequency'')
                = Inr (replicate (len df_data) True))"
proof -
  have on: "buscar_col (columns df_data) ''Frequency'' = Some c
            \<longrightarrow> freq_min a = Some lo \<longrightarrow> freq_max a = Some hi
            \<longrightarrow> (\<exists>f bm. getcol df_data (Some c) = Inr f
                   \<and> band_mask a df_data (Some c) = Inr bm
                   \<and> length bm = len df_data
                   \<and> (\<forall>i<len df_data. bm ! i = (fle lo (f ! i) \<and> fle (f ! i) hi)))"
  proof (intro impI)
    assume c: "buscar_col (columns df_data) ''Frequency'' = Some c"
      and lo: "freq_min a = Some lo" and hi: "freq_max a = Some hi"
    from getcol_buscar_col[OF c] obtain f where f: "getcol df_data (Some c) = Inr f" by blast
    have "c \<noteq> []" by (rule buscar_col_nonempty[OF _ c]) simp
    then have t: "truthy (Some c)" by simp
    define bm where "bm = series_and (map (\<lambda>x. fge x lo) f) (map (\<lambda>x. fle x hi) f)"
    have b: "band_mask a df_data (Some c) = Inr bm"
      unfolding band_mask_cases using t lo hi f by (simp add: ebind_simps bm_def)
    have l: "length f = len df_data" by (rule getcol_length[OF wf f])
    then have lb: "length bm = len df_data" by (simp add: bm_def series_and_length)
    have "\<forall>i<len df_data. bm ! i = (fle lo (f ! i) \<and> fle (f ! i) hi)"
      using l by (simp add: bm_def series_and_nth fge_fle)
    with f b lb show "\<exists>f bm. getcol df_data (Some c) = Inr f
                   \<and> band_mask a df_data (Some c) = Inr bm
                   \<and> length bm = len df_data
                   \<and> (\<forall>i<len df_data. bm ! i = (fle lo (f ! i) \<and> fle (f ! i) hi))"
      by blast
  qed
  have off: "buscar_col (columns df_data) ''Frequency'' = None
             \<or> freq_min a = None \<or> freq_max a = None
            \<longrightarrow> band_mask a df_data (buscar_col (columns df_data) ''Frequency'')
                = Inr (replicate (len df_data) True)"
    unfolding band_mask_cases by auto
  from on off show ?thesis by (intro conjI)
qed

theorem band_mask_filter_witness:
  "wf_df ex_data
   \<and> buscar_col (columns ex_data) ''Frequency'' = Some ''Frequency''
   \<and> freq_min (ex_args\<lparr>freq_min := Some (Fin 2400), freq_max := Some (Fin (4967 / 2))\<rparr>)
       = Some (Fin 2400)
   \<and> freq_max (ex_args\<lparr>freq_min := Some (Fin 2400), freq_max := Some (Fin (4967 / 2))\<rparr>)
       = Some (Fin (4967 / 2))
   \<and> getcol ex_data (Some ''Frequency'')
       = Inr [Fin 2410, Fin 2410, Fin 2500, Fin 2410, Fin 2410, Fin 2410]
   \<and> band_mask (ex_args\<lparr>freq_min := Some (Fin 2400), freq_max := Some (Fin (4967 / 2))\<rparr>)
         ex_data (Some ''Frequency'')
       = Inr [True, True, False, True, True, True]
   \<and> (\<exists>f bm. getcol ex_data (Some ''Frequency'') = Inr f
         \<and> band_mask (ex_args\<lparr>freq_min := Some (Fin 2400),
                                freq_max := Some (Fin (4967 / 2))\<rparr>)
               ex_data (Some ''Frequency'') = Inr bm
         \<and> length bm = len ex_data
         \<and> (\<forall>i<len ex_data. bm ! i = (fle (Fin 2400) (f ! i) \<and> fle (f ! i) (Fin (4967 / 2)))))
   \<and> freq_max (ex_args\<lparr>freq_min := Some (Fin 2400)\<rparr>) = None
   \<and> band_mask (ex_args\<lparr>freq_min := Some (Fin 2400)\<rparr>) ex_data
         (buscar_col (columns ex_data) ''Frequency'')
       = Inr (replicate (len ex_data) True)"
proof -
  let ?a = "ex_args\<lparr>freq_min := Some (Fin 2400), freq_max := Some (Fin (4967 / 2))\<rparr>"
  let ?b = "ex_args\<lparr>freq_min := Some (Fin 2400)\<rparr>"
  have w: "wf_df ex_data" by (rule ex_wf)
  have c: "buscar_col (columns ex_data) ''Frequency'' = Some ''Frequency''"
    by (rule ex_data_cols)
  have lo: "freq_min ?a = Some (Fin 2400)" and hi: "freq_max ?a = Some (Fin (4967 / 2))"
    by simp_all
  have n: "freq_max ?b = None" by (simp add: ex_args_fields)
  have e: "band_mask ?a ex_data (Some ''Frequency'') = Inr [True, True, False, True, True, True]"
    by (rule ex_band_mask_on[OF lo hi])
  from band_mask_filter[OF w, where a = ?a and c = "''Frequency''" and lo = "Fin 2400"
      and hi = "Fin (4967 / 2)"] c lo hi
  have on: "\<exists>f bm. getcol ex_data (Some ''Frequency'') = Inr f
         \<and> band_mask ?a ex_data (Some ''Frequency'') = Inr bm
         \<and> length bm = len ex_data
         \<and> (\<forall>i<len ex_data. bm ! i = (fle (Fin 2400) (f ! i) \<and> fle (f ! i) (Fin (4967 / 2))))"
    by blast
  from band_mask_filter[OF w, where a = ?b] n
  have off: "band_mask ?b ex_data (buscar_col (columns ex_data) ''Frequency'')
       = Inr (replicate (len ex_data) True)" by blast
  from w c lo hi ex_getcol(5) e on n off show ?thesis by (intro conjI)
qed

text \<open>
  C3.  For every row of the data table the instantaneous mask is true exactly when the
  row's Power Flux Density is greater than its threshold, the row is in the band, and
  either no power threshold exists or the row's power is greater than the power threshold.
  Both comparisons are strict: a row whose value equals the threshold does not pass.
\<close>

theorem instant_mask_rows:
  assumes wf: "wf_df df_data"
    and bm: "band_mask a df_data freq_data = Inr bm"
    and im: "instant_mask df_data pfd_data pow_data tp tw bm = Inr im"
  shows "length im = len df_data
       \<and> (\<exists>pfd. getcol df_data pfd_data = Inr pfd
            \<and> (\<forall>i<len df_data.
                  im ! i = (fgt (pfd ! i) tp \<and> bm ! i
                            \<and> (case tw of None \<Rightarrow> True
                                | Some t \<Rightarrow> (\<exists>pw. getcol df_data pow_data = Inr pw
                                               \<and> fgt (pw ! i) t)))
                  \<and> (pfd ! i = tp \<longrightarrow> \<not> im ! i)
                  \<and> (\<forall>pw. getcol df_data pow_data = Inr pw \<longrightarrow> tw = Some (pw ! i)
                        \<longrightarrow> \<not> im ! i)))"
proof -
  have lb: "length bm = len df_data" by (rule band_mask_length[OF wf bm])
  have li: "length im = len df_data" by (rule instant_mask_length[OF wf lb im])
  from instant_mask_cases[OF im] obtain pfd where pfd: "getcol df_data pfd_data = Inr pfd"
    and c: "case tw of
               None \<Rightarrow> im = series_and (map (\<lambda>x. fgt x tp) pfd) bm
             | Some t \<Rightarrow> (\<exists>pws. getcol df_data pow_data = Inr pws
                   \<and> im = series_and (series_and (map (\<lambda>x. fgt x tp) pfd) bm)
                                     (map (\<lambda>x. fgt x t) pws))"
    by blast
  have lp: "length pfd = len df_data" by (rule getcol_length[OF wf pfd])
  have rows: "\<forall>i<len df_data.
                  im ! i = (fgt (pfd ! i) tp \<and> bm ! i
                            \<and> (case tw of None \<Rightarrow> True
                                | Some t \<Rightarrow> (\<exists>pw. getcol df_data pow_data = Inr pw
                                               \<and> fgt (pw ! i) t)))"
  proof (cases tw)
    case None
    with c have "im = series_and (map (\<lambda>x. fgt x tp) pfd) bm" by simp
    with None lp lb show ?thesis by (simp add: series_and_nth)
  next
    case (Some t)
    with c obtain pws where pws: "getcol df_data pow_data = Inr pws"
      and e: "im = series_and (series_and (map (\<lambda>x. fgt x tp) pfd) bm)
                                     (map (\<lambda>x. fgt x t) pws)" by auto
    have "length pws = len df_data" by (rule getcol_length[OF wf pws])
    with e Some lp lb pws show ?thesis
      by (simp add: series_and_nth series_and_length)
  qed
  have strict: "\<forall>i<len df_data. (pfd ! i = tp \<longrightarrow> \<not> im ! i)
                  \<and> (\<forall>pw. getcol df_data pow_data = Inr pw \<longrightarrow> tw = Some (pw ! i)
                        \<longrightarrow> \<not> im ! i)"
  proof (intro allI impI conjI)
    fix i assume i: "i < len df_data" and "pfd ! i = tp"
    with rows show "\<not> im ! i" by (simp add: fgt_irrefl)
  next
    fix i pw assume i: "i < len df_data" and "getcol df_data pow_data = Inr pw"
      and "tw = Some (pw ! i)"
    with rows show "\<not> im ! i" by (simp add: fgt_irrefl)
  qed
  from li pfd rows strict show ?thesis by blast
qed

theorem instant_mask_rows_witness:
  "wf_df ex_data
   \<and> band_mask (ex_args\<lparr>freq_min := Some (Fin 2400), freq_max := Some (Fin (4967 / 2))\<rparr>)
         ex_data (Some ''Frequency'')
       = Inr [True, True, False, True, True, True]
   \<and> getcol ex_data (Some ''Power Flux Density'')
       = Inr [Fin 20, Fin 20, Fin 20, Fin 20, Fin 16, NaN]
   \<and> getcol ex_data (Some ''Total Spectrum Power'')
       = Inr [Fin 20, Fin 16, Fin 20, Fin 20, Fin 20, Fin 20]
   \<and> instant_mask ex_data (Some ''Power Flux Density'') (Some ''Total Spectrum Power'')
         (Fin 16) (Some (Fin 16)) [True, True, False, True, True, True]
       = Inr [True, False, False, True, False, False]
   \<and> length [True, False, False, True, False, False] = len ex_data
   \<and> (\<exists>pfd. getcol ex_data (Some ''Power Flux Density'') = Inr pfd
        \<and> (\<forall>i<len ex_data.
              [True, False, False, True, False, False] ! i
              = (fgt (pfd ! i) (Fin 16) \<and> [True, True, False, True, True, True] ! i
                 \<and> (\<exists>pw. getcol ex_data (Some ''Total Spectrum Power'') = Inr pw
                       \<and> fgt (pw ! i) (Fin 16)))))"
proof -
  let ?a = "ex_args\<lparr>freq_min := Some (Fin 2400), freq_max := Some (Fin (4967 / 2))\<rparr>"
  have w: "wf_df ex_data" by (rule ex_wf)
  have b: "band_mask ?a ex_data (Some ''Frequency'') = Inr [True, True, False, True, True, True]"
    by (rule ex_band_mask_on) simp_all
  have m: "instant_mask ex_data (Some ''Power Flux Density'') (Some ''Total Spectrum Power'')
         (Fin 16) (Some (Fin 16)) [True, True, False, True, True, True]
       = Inr [True, False, False, True, False, False]"
    by (rule ex_instant_mask_data)
  from instant_mask_rows[OF w b m]
  have r: "length [True, False, False, True, False, False] = len ex_data
   \<and> (\<exists>pfd. getcol ex_data (Some ''Power Flux Density'') = Inr pfd
        \<and> (\<forall>i<len ex_data.
              [True, False, False, True, False, False] ! i
              = (fgt (pfd ! i) (Fin 16) \<and> [True, True, False, True, True, True] ! i
                 \<and> (\<exists>pw. getcol ex_data (Some ''Total Spectrum Power'') = Inr pw
                       \<and> fgt (pw ! i) (Fin 16)))))"
    by (simp del: getcol.simps) blast
  from w b ex_getcol(6) ex_getcol(7) m r show ?thesis by (intro conjI) simp_all
qed

section \<open>The power criterion\<close>




section \<open>Thresholds without sufficient data\<close>










section \<open>Thresholds and the candidate table\<close>

lemma thr_pfd_ksigma:
  "ksigma a1 = ksigma a2 \<Longrightarrow> thr_pfd ar a1 df_base c = thr_pfd ar a2 df_base c"
  by (simp add: thr_pfd_def)

lemma thr_power_Some:
  assumes "thr_power ar a df_base wb wd = Inr (Some t)"
  shows "\<exists>s. getcol df_base wb = Inr s
          \<and> t = f_add ar (s_mean ar s) (f_mul ar (ksigma a) (s_std ar s))"
  using assms by (auto simp: thr_power_def ebind_eq_Inr split: if_splits)

lemma thr_power_ksigma:
  "ksigma a1 = ksigma a2 \<Longrightarrow> thr_power ar a1 df_base wb wd = thr_power ar a2 df_base wb wd"
  by (simp add: thr_power_def)

text \<open>
  C9, as amended.  The Power Flux Density threshold is a function of the baseline table and
  \<open>k\<close> only: two runs with the same baseline and the same \<open>k\<close> have the same threshold,
  whatever their data tables.  The power threshold is computed only when the data table
  has a Total Spectrum Power column; when both runs compute it, it is the same, and two
  runs whose data tables have the same column names, with whatever values, have the same
  power threshold or both none.  The values of the data table never enter a threshold.
\<close>

theorem thresholds_from_baseline:
  assumes k: "ksigma a1 = ksigma a2"
    and r1: "fst (detectar ar a1 df_base d1 tr1) = Inr o1"
    and r2: "fst (detectar ar a2 df_base d2 tr2) = Inr o2"
  shows "out_thr_pfd o1 = out_thr_pfd o2
       \<and> (out_thr_power o1 \<noteq> None \<longrightarrow> out_thr_power o2 \<noteq> None
            \<longrightarrow> out_thr_power o1 = out_thr_power o2)
       \<and> (columns d1 = columns d2 \<longrightarrow> out_thr_power o1 = out_thr_power o2)"
proof -
  let ?pb = "buscar_col (columns df_base) ''Power Flux Density''"
  let ?wb = "buscar_col (columns df_base) ''Total Spectrum Power''"
  from detectar_Inr[OF r1] have
    p1: "thr_pfd ar a1 df_base ?pb = Inr (out_thr_pfd o1)"
    and w1: "thr_power ar a1 df_base ?wb (buscar_col (columns d1) ''Total Spectrum Power'')
             = Inr (out_thr_power o1)" by simp_all
  from detectar_Inr[OF r2] have
    p2: "thr_pfd ar a2 df_base ?pb = Inr (out_thr_pfd o2)"
    and w2: "thr_power ar a2 df_base ?wb (buscar_col (columns d2) ''Total Spectrum Power'')
             = Inr (out_thr_power o2)" by simp_all
  from p1 p2 thr_pfd_ksigma[OF k, of ar df_base ?pb]
  have A: "out_thr_pfd o1 = out_thr_pfd o2" by simp
  have B: "out_thr_power o1 \<noteq> None \<longrightarrow> out_thr_power o2 \<noteq> None
            \<longrightarrow> out_thr_power o1 = out_thr_power o2"
  proof (intro impI)
    assume "out_thr_power o1 \<noteq> None" "out_thr_power o2 \<noteq> None"
    then obtain t1 t2 where t: "out_thr_power o1 = Some t1" "out_thr_power o2 = Some t2"
      by auto
    from thr_power_Some[OF w1[unfolded t]] obtain s1 where
      s1: "getcol df_base ?wb = Inr s1"
      "t1 = f_add ar (s_mean ar s1) (f_mul ar (ksigma a1) (s_std ar s1))" by blast
    from thr_power_Some[OF w2[unfolded t]] obtain s2 where
      s2: "getcol df_base ?wb = Inr s2"
      "t2 = f_add ar (s_mean ar s2) (f_mul ar (ksigma a2) (s_std ar s2))" by blast
    from s1(1) s2(1) have "s1 = s2" by simp
    with s1(2) s2(2) k have "t1 = t2" by simp
    with t show "out_thr_power o1 = out_thr_power o2" by simp
  qed
  have C: "columns d1 = columns d2 \<longrightarrow> out_thr_power o1 = out_thr_power o2"
  proof
    assume "columns d1 = columns d2"
    with w1 w2 thr_power_ksigma[OF k, of ar df_base ?wb
        "buscar_col (columns d2) ''Total Spectrum Power''"]
    show "out_thr_power o1 = out_thr_power o2" by simp
  qed
  from A B C show ?thesis by (intro conjI)
qed

lemma ex_run_data:
  "fst (detectar ideal_arith
          (ex_args\<lparr>freq_min := Some (Fin 2400), freq_max := Some (Fin (4967 / 2))\<rparr>)
          ex_base ex_data [])
   = Inr \<lparr>out_thr_pfd = Fin 16, out_thr_power = Some (Fin 16),
          out_band_mask = [True, True, False, True, True, True],
          out_instant_mask = [True, False, False, True, False, False],
          out_dron_detectado = True\<rparr>"
proof -
  have v: "dron_detectado 1 [True, False, False, True, False, False] = Inr True" by code_simp
  show ?thesis by (simp add: ex_detectar_data ex_args_fields v run_stage_simps)
qed

lemma ex_run_short:
  "fst (detectar ideal_arith
          (ex_args\<lparr>freq_min := Some (Fin 2400), freq_max := Some (Fin (4967 / 2))\<rparr>)
          ex_base ex_short [])
   = Inr \<lparr>out_thr_pfd = Fin 16, out_thr_power = None, out_band_mask = [True, True],
          out_instant_mask = [True, True], out_dron_detectado = True\<rparr>"
proof -
  have v: "dron_detectado 1 [True, True] = Inr True" by code_simp
  show ?thesis by (simp add: ex_detectar_short ex_args_fields v run_stage_simps)
qed

theorem thresholds_from_baseline_witness:
  "ksigma (ex_args\<lparr>freq_min := Some (Fin 2400), freq_max := Some (Fin (4967 / 2))\<rparr>)
     = ksigma (ex_args\<lparr>freq_min := Some (Fin 2400), freq_max := Some (Fin (4967 / 2))\<rparr>)
   \<and> fst (detectar ideal_arith
          (ex_args\<lparr>freq_min := Some (Fin 2400), freq_max := Some (Fin (4967 / 2))\<rparr>)
          ex_base ex_data [])
       = Inr \<lparr>out_thr_pfd = Fin 16, out_thr_power = Some (Fin 16),
              out_band_mask = [True, True, False, True, True, True],
              out_instant_mask = [True, False, False, True, False, False],
              out_dron_detectado = True\<rparr>
   \<and> fst (detectar ideal_arith
          (ex_args\<lparr>freq_min := Some (Fin 2400), freq_max := Some (Fin (4967 / 2))\<rparr>)
          ex_base ex_short [])
       = Inr \<lparr>out_thr_pfd = Fin 16, out_thr_power = None, out_band_mask = [True, True],
              out_instant_mask = [True, True], out_dron_detectado = True\<rparr>
   \<and> out_thr_pfd \<lparr>out_thr_pfd = Fin 16, out_thr_power = Some (Fin 16),
              out_band_mask = [True, True, False, True, True, True],
              out_instant_mask = [True, False, False, True, False, False],
              out_dron_detectado = True\<rparr>
       = out_thr_pfd \<lparr>out_thr_pfd = Fin 16, out_thr_power = None,
              out_band_mask = [True, True], out_instant_mask = [True, True],
              out_dron_detectado = True\<rparr>"
proof -
  let ?a = "ex_args\<lparr>freq_min := Some (Fin 2400), freq_max := Some (Fin (4967 / 2))\<rparr>"
  have k: "ksigma ?a = ksigma ?a" by simp
  from thresholds_from_baseline[OF k ex_run_data ex_run_short]
  have "out_thr_pfd \<lparr>out_thr_pfd = Fin 16, out_thr_power = Some (Fin 16),
              out_band_mask = [True, True, False, True, True, True],
              out_instant_mask = [True, False, False, True, False, False],
              out_dron_detectado = True\<rparr>
       = out_thr_pfd \<lparr>out_thr_pfd = Fin 16, out_thr_power = None,
              out_band_mask = [True, True], out_instant_mask = [True, True],
              out_dron_detectado = True\<rparr>"
    by blast
  with k ex_run_data ex_run_short show ?thesis by (intro conjI)
qed

text \<open>
  C9 as stated fails for the power threshold: with the same baseline and the same
  arguments, a data table with a Total Spectrum Power column gives the power threshold 16,
  and a data table without one gives none.
\<close>

theorem thresholds_counterexample:
  "fst (detectar ideal_arith
          (ex_args\<lparr>freq_min := Some (Fin 2400), freq_max := Some (Fin (4967 / 2))\<rparr>)
          ex_base ex_data [])
     = Inr \<lparr>out_thr_pfd = Fin 16, out_thr_power = Some (Fin 16),
            out_band_mask = [True, True, False, True, True, True],
            out_instant_mask = [True, False, False, True, False, False],
            out_dron_detectado = True\<rparr>
   \<and> fst (detectar ideal_arith
          (ex_args\<lparr>freq_min := Some (Fin 2400), freq_max := Some (Fin (4967 / 2))\<rparr>)
          ex_base ex_short [])
     = Inr \<lparr>out_thr_pfd = Fin 16, out_thr_power = None, out_band_mask = [True, True],
            out_instant_mask = [True, True], out_dron_detectado = True\<rparr>
   \<and> Some (Fin 16) \<noteq> (None :: fval option)"
  using ex_run_data ex_run_short by simp

end
